theory Spec2Isabelle
  imports Complex_Main "HOL-Library.Word" "HOL-Library.Monad_Syntax"
begin

unbundle bit_operations_syntax

section \<open>JavaScript values\<close>

text \<open>
  A JavaScript string is a sequence of UTF-16 code units. The narration sanitizer matches
  characters outside ASCII, so strings are lists of 16-bit words; \<open>js\<close> embeds an ASCII
  literal.
\<close>

type_synonym jsstring = "16 word list"

definition js :: "string \<Rightarrow> jsstring" where
  "js s = map (\<lambda>c. of_nat (of_char c)) s"

text \<open>
  A thrown value, as far as the program looks at it. The only thing the program does with
  one is \<^verbatim>\<open>err.message?.includes(...)\<close>, so a thrown value is one of:
  \<^item> \<open>Nullish\<close>: \<^verbatim>\<open>null\<close> or \<^verbatim>\<open>undefined\<close>, on which reading \<^verbatim>\<open>.message\<close> throws
    a \<^verbatim>\<open>TypeError\<close>;
  \<^item> \<open>Thrown m\<close>: any other value whose \<^verbatim>\<open>message\<close> is a string (\<open>Some\<close>) or is
    \<^verbatim>\<open>null\<close> or \<^verbatim>\<open>undefined\<close> (\<open>None\<close>), as for a thrown string;
  \<^item> \<open>OddMessage r\<close>: any other value whose \<^verbatim>\<open>message\<close> is of another type; \<open>r\<close> is
    what calling \<^verbatim>\<open>includes\<close> on that message does: it throws (\<open>None\<close>, as for a number,
    which has no such method) or returns a value of that truthiness (as for an array).
  A call that may throw returns \<open>thrown + 'a\<close>, \<open>Inl\<close> being the exception.
\<close>

datatype thrown = Nullish | Thrown "jsstring option" | OddMessage "bool option"

text \<open>Truthiness of a \<^verbatim>\<open>string | undefined\<close>: defined and not the empty string.\<close>

definition truthy :: "jsstring option \<Rightarrow> bool" where
  "truthy v = (case v of None \<Rightarrow> False | Some s \<Rightarrow> s \<noteq> [])"

text \<open>\<^verbatim>\<open>String.prototype.startsWith\<close> and \<^verbatim>\<open>String.prototype.includes\<close>.\<close>

fun startsWith :: "jsstring \<Rightarrow> jsstring \<Rightarrow> bool" where
  "startsWith s [] = True"
| "startsWith [] (c # cs) = False"
| "startsWith (x # xs) (c # cs) = (x = c \<and> startsWith xs cs)"

fun str_includes :: "jsstring \<Rightarrow> jsstring \<Rightarrow> bool" where
  "str_includes [] sub = (sub = [])"
| "str_includes (x # xs) sub = (startsWith (x # xs) sub \<or> str_includes xs sub)"

section \<open>The data model (types.ts)\<close>

record VocabularyItem =
  item_term :: jsstring
  item_definition :: jsstring

text \<open>
  \<^verbatim>\<open>correctIndex\<close> is a JavaScript number that nothing validates, hence an \<open>int\<close>.
\<close>

record QuizData =
  question :: jsstring
  options :: "jsstring list"
  correctIndex :: int

text \<open>
  \<^verbatim>\<open>SlideType\<close> is a string enum: at run time the \<^verbatim>\<open>type\<close> of a slide is a string,
  compared with \<^verbatim>\<open>===\<close> and \<^verbatim>\<open>switch\<close>, and the deck comes from \<^verbatim>\<open>JSON.parse\<close>
  through a cast that checks nothing. The five members are these strings.
\<close>

type_synonym SlideType = jsstring

definition INTRO :: SlideType where "INTRO = js ''INTRO''"
definition DEEP_DIVE :: SlideType where "DEEP_DIVE = js ''DEEP_DIVE''"
definition VOCABULARY :: SlideType where "VOCABULARY = js ''VOCABULARY''"
definition SCENARIO :: SlideType where "SCENARIO = js ''SCENARIO''"
definition CONCLUSION :: SlideType where "CONCLUSION = js ''CONCLUSION''"

text \<open>
  The optional fields of the interface (\<^verbatim>\<open>visualPrompt?\<close>, \<^verbatim>\<open>vocabulary?\<close>,
  \<^verbatim>\<open>quiz?\<close>) are options; \<^verbatim>\<open>audioScript\<close> is declared a required string.
\<close>

record Slide =
  slide_type :: SlideType
  title :: jsstring
  content :: jsstring
  audioScript :: jsstring
  audioDurationEstimate :: real
  visualPrompt :: "jsstring option"
  vocabulary :: "VocabularyItem list option"
  quiz :: "QuizData option"

record DeckContent =
  topic :: jsstring
  slides :: "Slide list"

datatype AppState = INPUT | LOADING | DECK | ERROR

text \<open>\<^verbatim>\<open>Record<number, string>\<close>: a sparse map from slide position to asset.\<close>

record GeneratedAsset =
  deck :: DeckContent
  images :: "nat \<rightharpoonup> jsstring"
  audio :: "nat \<rightharpoonup> jsstring"

text \<open>The string unions \<^verbatim>\<open>"1K" | "2K" | "4K"\<close> and the four accents.\<close>

datatype ImageSize = Size_1K | Size_2K | Size_4K

datatype VoiceAccent = American | British | Indian | Nigerian

section \<open>The content generation client (services/geminiService.ts)\<close>

subsection \<open>What the generative service answers\<close>

text \<open>
  The parts of a \<^verbatim>\<open>generateContent\<close> response that the client reads. Every level is
  optional in the SDK's types: \<^verbatim>\<open>candidates?\<close>, \<^verbatim>\<open>content?\<close>, \<^verbatim>\<open>parts?\<close>,
  \<^verbatim>\<open>inlineData?\<close> and its \<^verbatim>\<open>data?\<close>.
\<close>

datatype Part = Part (inlineData: "jsstring option option")
datatype Content = Content (parts: "Part list option")
datatype Candidate = Candidate (cand_content: "Content option")

type_synonym candidates = "Candidate list option"

text \<open>
  The service is a parameter of the model. \<^verbatim>\<open>new GoogleGenAI(...)\<close> may throw, and each
  client function constructs its client before its own \<^verbatim>\<open>try\<close>, so a client is
  \<open>thrown + backend\<close>. A backend maps the request to what awaiting it gives: an exception
  or the response.
  \<^item> text (type \<open>text_backend\<close> below): the request to \<^verbatim>\<open>response.text\<close>
    (\<^verbatim>\<open>string | undefined\<close>);
  \<^item> image: model name, prompt and the \<^verbatim>\<open>imageSize\<close> of the configuration (present
    for the high-resolution model only) to the candidates;
  \<^item> speech: prompt and voice name to the candidates.
\<close>

type_synonym image_backend = "jsstring \<Rightarrow> jsstring \<Rightarrow> ImageSize option \<Rightarrow> thrown + candidates"
type_synonym speech_backend = "jsstring \<Rightarrow> jsstring \<Rightarrow> thrown + candidates"

subsection \<open>The deck request\<close>

text \<open>
  The schema language of the SDK as far as the program uses it (\<^verbatim>\<open>Type.STRING\<close> with an
  optional \<^verbatim>\<open>enum\<close>, \<^verbatim>\<open>Type.NUMBER\<close>, \<^verbatim>\<open>Type.INTEGER\<close>, \<^verbatim>\<open>Type.ARRAY\<close> with its
  \<^verbatim>\<open>items\<close>, \<^verbatim>\<open>Type.OBJECT\<close> with its \<^verbatim>\<open>properties\<close> and \<^verbatim>\<open>required\<close>), and the
  \<^verbatim>\<open>responseSchema\<close> of the deck request. The schema names no number of slides.
\<close>

datatype schema =
    STRING "jsstring list option"
  | NUMBER
  | INTEGER
  | ARRAY schema
  | OBJECT "(string \<times> schema) list" "string list"

definition vocabulary_schema :: schema where
  "vocabulary_schema =
     ARRAY (OBJECT [(''term'', STRING None), (''definition'', STRING None)]
              [''term'', ''definition''])"

definition quiz_schema :: schema where
  "quiz_schema =
     OBJECT [(''question'', STRING None), (''options'', ARRAY (STRING None)),
             (''correctIndex'', INTEGER)]
       [''question'', ''options'', ''correctIndex'']"

definition slide_schema :: schema where
  "slide_schema =
     OBJECT [(''type'', STRING (Some [INTRO, DEEP_DIVE, VOCABULARY, SCENARIO, CONCLUSION])),
             (''title'', STRING None),
             (''content'', STRING None),
             (''audioScript'', STRING None),
             (''audioDurationEstimate'', NUMBER),
             (''visualPrompt'', STRING None),
             (''vocabulary'', vocabulary_schema),
             (''quiz'', quiz_schema)]
       [''type'', ''title'', ''content'', ''audioScript'', ''audioDurationEstimate'']"

definition deck_schema :: schema where
  "deck_schema =
     OBJECT [(''topic'', STRING None), (''slides'', ARRAY slide_schema)]
       [''topic'', ''slides'']"

text \<open>
  The argument of \<^verbatim>\<open>ai.models.generateContent\<close> for the deck: model, prompt and the
  configuration with the response schema.
\<close>

record TextRequest =
  req_model :: jsstring
  req_contents :: jsstring
  req_responseMimeType :: jsstring
  req_responseSchema :: schema

type_synonym text_backend = "TextRequest \<Rightarrow> thrown + jsstring option"

subsection \<open>generateDeckText\<close>

text \<open>
  The prompt: the template literal of the source around the competency, line breaks and
  indentation included. The two characters outside ASCII are U+03A3 and U+0394.
\<close>

definition deck_prompt :: "jsstring \<Rightarrow> jsstring" where
  \<open>deck_prompt competency =
     js ([CHR 0x0A]
         @ ''    Act as a Lead Educational Engineer. Your mission is to generate a high-quality 15-slide educational deck from this competency: "'')
     @ competency
     @ js (''".''
         @ [CHR 0x0A]
         @ [CHR 0x0A]
         @ ''    UNIVERSAL CONTENT REFINEMENT: "THE SCAFFOLDING RULE"''
         @ [CHR 0x0A]
         @ ''    1. Audience Calibration: Determine the target audience's likely age (e.g., 10yo vs 17yo).''
         @ [CHR 0x0A]
         @ ''       - For Younger Learners (K-8): Use "Concrete-Relatable" language and analogies involving playgrounds or toys.''
         @ [CHR 0x0A]
         @ ''       - For Older Learners (9-12+): Use "Advanced Academic" language and analogies involving driving, professional sports, or technology.''
         @ [CHR 0x0A]
         @ ''    2. Concept Progression: Every explanation must follow this strict 3-sentence structure:''
         @ [CHR 0x0A]
         @ ''       - Sentence 1 (The Anchor): State the concept clearly using age-appropriate technical terms.''
         @ [CHR 0x0A]
         @ ''       - Sentence 2 (The Elaborated Analogy): Bridge the concept to a common relevant experience.''
         @ [CHR 0x0A]
         @ ''       - Sentence 3 (The Application): Explain its real-world importance based on the competency.''
         @ [CHR 0x0A]
         @ ''    3. No Bullets: Use cohesive, descriptive mini-paragraphs. No lists. This ensures the narration sounds like a professional talk.''
         @ [CHR 0x0A]
         @ [CHR 0x0A]
         @ ''    AUDIO & SYNC LOGIC:''
         @ [CHR 0x0A]
         @ ''    - audioScript: REQUIRED FOR ALL SLIDES. Podcast-quality conversational narration (50-100 words).''
         @ [CHR 0x0A]
         @ ''    - Integrated Visual Narration: For Deep Dive slides, the script MUST reference the image (e.g., "If you look at the diagram on the right, you can see the purple arrow...").''
         @ [CHR 0x0A]
         @ ''    - Quiz Narrations: Provide a "Hint-style overview" that helps the learner reason through the problem (e.g., "Think about whether the push or the pull is stronger here!").''
         @ [CHR 0x0A]
         @ ''    - Clean Scripting: Do not use math symbols like '')
     @ [0x3A3]
     @ js ('', '')
     @ [0x394]
     @ js ('', or LaTeX. Use full words (e.g., "sum of", "change in").''
         @ [CHR 0x0A]
         @ [CHR 0x0A]
         @ ''    VISUAL REQUIREMENTS:''
         @ [CHR 0x0A]
         @ ''    - visualPrompt: Detailed prompt for a "3D claymation" style infographic. Specify layout (split-screen comparison or hero diagram) and use mint green and soft purple colors with bold text labels.''
         @ [CHR 0x0A]
         @ ''  '')\<close>

definition deck_request :: "jsstring \<Rightarrow> TextRequest" where
  "deck_request competency =
     \<lparr>req_model = js ''gemini-3-pro-preview'',
      req_contents = deck_prompt competency,
      req_responseMimeType = js ''application/json'',
      req_responseSchema = deck_schema\<rparr>"

text \<open>
  \<^verbatim>\<open>JSON.parse(text) as DeckContent\<close>: the parser is a parameter, a function from the
  text to a \<^verbatim>\<open>SyntaxError\<close> or to the parsed value, which the cast takes to be a
  \<^verbatim>\<open>DeckContent\<close> without looking at it. The function has no \<^verbatim>\<open>try\<close>: whatever
  is thrown leaves it.
\<close>

definition generateDeckText ::
  "thrown + text_backend \<Rightarrow> (jsstring \<Rightarrow> thrown + DeckContent) \<Rightarrow> jsstring
     \<Rightarrow> thrown + DeckContent" where
  "generateDeckText ai JSON_parse competency =
     (case ai of
        Inl e \<Rightarrow> Inl e
      | Inr generate \<Rightarrow>
          (case generate (deck_request competency) of
             Inl e \<Rightarrow> Inl e
           | Inr None \<Rightarrow> Inl (Thrown (Some (js ''No content generated'')))
           | Inr (Some text) \<Rightarrow>
               if text = [] then Inl (Thrown (Some (js ''No content generated'')))
               else JSON_parse text))"

subsection \<open>generateDeckImage\<close>

text \<open>The two nested \<^verbatim>\<open>for\<close> loops: the first part with \<^verbatim>\<open>inlineData\<close> wins.\<close>

definition data_url :: "jsstring option \<Rightarrow> jsstring" where
  "data_url d =
     js ''data:image/png;base64,'' @ (case d of None \<Rightarrow> js ''undefined'' | Some s \<Rightarrow> s)"

fun scan_parts :: "Part list \<Rightarrow> jsstring option" where
  "scan_parts [] = None"
| "scan_parts (p # ps) =
     (case inlineData p of Some d \<Rightarrow> Some (data_url d) | None \<Rightarrow> scan_parts ps)"

text \<open>
  \<^verbatim>\<open>candidate.content.parts || []\<close>: a candidate without \<^verbatim>\<open>content\<close> makes the
  property access throw a \<^verbatim>\<open>TypeError\<close>: \<open>Inl\<close>.
\<close>

fun scan_candidates :: "Candidate list \<Rightarrow> thrown + jsstring option" where
  "scan_candidates [] = Inr None"
| "scan_candidates (c # cs) =
     (case cand_content c of
        None \<Rightarrow> Inl (Thrown (Some (js ''Cannot read properties of undefined'')))
      | Some ct \<Rightarrow>
          (case scan_parts (case parts ct of None \<Rightarrow> [] | Some ps \<Rightarrow> ps) of
             Some url \<Rightarrow> Inr (Some url)
           | None \<Rightarrow> scan_candidates cs))"

text \<open>
  Everything after the construction of the client is inside \<^verbatim>\<open>try\<close>; the
  \<^verbatim>\<open>catch\<close> returns \<^verbatim>\<open>undefined\<close>, and so does a response without image data
  (\<^verbatim>\<open>throw new Error("No image data")\<close> inside the same \<^verbatim>\<open>try\<close>).
\<close>

definition generateDeckImage ::
  "thrown + image_backend \<Rightarrow> jsstring \<Rightarrow> ImageSize \<Rightarrow> thrown + jsstring option" where
  "generateDeckImage ai imagePrompt size0 =
     (case ai of
        Inl e \<Rightarrow> Inl e
      | Inr generate \<Rightarrow>
          (let fullPrompt = imagePrompt
                 @ js (''. 3D claymation style, soft lighting, depth of field, ''
                       @ ''mint green and soft purple colors. Bold legible labels.'');
               isHighRes = (size0 = Size_2K \<or> size0 = Size_4K);
               model = (if isHighRes then js ''gemini-3-pro-image-preview''
                        else js ''gemini-2.5-flash-image'')
           in Inr (case generate model fullPrompt (if isHighRes then Some size0 else None) of
                     Inl e \<Rightarrow> None
                   | Inr response \<Rightarrow>
                       (case scan_candidates (case response of None \<Rightarrow> [] | Some cs \<Rightarrow> cs) of
                          Inl e \<Rightarrow> None
                        | Inr None \<Rightarrow> None
                        | Inr (Some url) \<Rightarrow> Some url))))"

subsection \<open>generateSlideAudio\<close>

text \<open>
  One \<^verbatim>\<open>.replace(/c/g, r)\<close> with a single-character pattern, and the final character
  class \<^verbatim>\<open>[\$\#\@\*\^\{\}\[\]]\<close> replaced by the empty string. The patterns are
  U+03A3, U+0394, U+2260, U+2248 and U+00B1, one code unit each.
\<close>

definition replace_all :: "16 word \<Rightarrow> jsstring \<Rightarrow> jsstring \<Rightarrow> jsstring" where
  "replace_all c r s = concat (map (\<lambda>x. if x = c then r else [x]) s)"

definition markup :: "16 word list" where
  "markup = [0x24, 0x23, 0x40, 0x2A, 0x5E, 0x7B, 0x7D, 0x5B, 0x5D]"

definition strip_markup :: "jsstring \<Rightarrow> jsstring" where
  "strip_markup s = filter (\<lambda>x. x \<notin> set markup) s"

definition cleanText :: "jsstring \<Rightarrow> jsstring" where
  "cleanText text =
     strip_markup
       (replace_all 0xB1 (js ''plus or minus '')
         (replace_all 0x2248 (js ''is approximately '')
           (replace_all 0x2260 (js ''is not equal to '')
             (replace_all 0x394 (js ''change in '')
               (replace_all 0x3A3 (js ''sum of '') text)))))"

text \<open>The voice name and the accent instruction chosen by the \<^verbatim>\<open>if\<close> chain.\<close>

definition voice :: "VoiceAccent \<Rightarrow> jsstring \<times> jsstring" where
  "voice accent =
     (if accent = British then (js ''Puck'', js ''refined British English'')
      else if accent = Indian then (js ''Kore'', js ''warm Indian English'')
      else if accent = Nigerian then (js ''Kore'', js ''lively Nigerian English'')
      else (js ''Kore'', js ''American English''))"

text \<open>\<^verbatim>\<open>response.candidates?.[0]?.content?.parts?.[0]?.inlineData?.data\<close>.\<close>

definition first_inline_data :: "candidates \<Rightarrow> jsstring option" where
  "first_inline_data response =
     (case response of
        None \<Rightarrow> None
      | Some [] \<Rightarrow> None
      | Some (c # _) \<Rightarrow>
          (case cand_content c of
             None \<Rightarrow> None
           | Some ct \<Rightarrow>
               (case parts ct of
                  None \<Rightarrow> None
                | Some [] \<Rightarrow> None
                | Some (p # _) \<Rightarrow> (case inlineData p of None \<Rightarrow> None | Some d \<Rightarrow> d))))"

definition generateSlideAudio ::
  "thrown + speech_backend \<Rightarrow> jsstring \<Rightarrow> VoiceAccent \<Rightarrow> thrown + jsstring option" where
  "generateSlideAudio ai text accent =
     (case ai of
        Inl e \<Rightarrow> Inl e
      | Inr generate \<Rightarrow>
          (let (voiceName, accentInstr) = voice accent;
               promptText = js ''Speak naturally in a '' @ accentInstr
                 @ js '' accent: '' @ cleanText text
           in Inr (case generate promptText voiceName of
                     Inl e \<Rightarrow> None
                   | Inr response \<Rightarrow> first_inline_data response)))"

section \<open>The generation orchestrator (App.tsx)\<close>

text \<open>
  The host object \<^verbatim>\<open>window.aistudio\<close>: what \<^verbatim>\<open>hasSelectedApiKey()\<close> resolves to,
  and what awaiting the \<^verbatim>\<open>openSelectKey()\<close> of the \<^verbatim>\<open>catch\<close> block gives (it
  resolves or rejects). The two awaits of \<^verbatim>\<open>handleApiKeyCheck\<close> come before the
  \<^verbatim>\<open>try\<close>, the first state change and the deck call; the model describes the runs in
  which they resolve, as the source's own comment assumes.
\<close>

record AIStudio =
  hasSelectedApiKey :: bool
  openSelectKey :: "thrown + unit"

text \<open>
  What the orchestrator's collaborators do during one run:
  \<^item> \<open>aistudio\<close>: \<^verbatim>\<open>window.aistudio\<close>, absent or present.
  \<^item> \<open>deckText\<close>: the imported \<^verbatim>\<open>generateDeckText\<close>.
  \<^item> \<open>deckImage\<close>, \<open>slideAudio\<close>: the imported \<^verbatim>\<open>generateDeckImage\<close> and
    \<^verbatim>\<open>generateSlideAudio\<close>. The service may answer two equal requests differently,
    so the call made for a slide is identified by the slide's position (first argument).
\<close>

record Collaborators =
  aistudio :: "AIStudio option"
  deckText :: "jsstring \<Rightarrow> thrown + DeckContent"
  deckImage :: "nat \<Rightarrow> jsstring \<Rightarrow> ImageSize \<Rightarrow> thrown + jsstring option"
  slideAudio :: "nat \<Rightarrow> jsstring \<Rightarrow> VoiceAccent \<Rightarrow> thrown + jsstring option"

text \<open>The \<^verbatim>\<open>useState\<close> cells of \<^verbatim>\<open>App\<close>.\<close>

record App =
  state :: AppState
  competency :: jsstring
  imageSize :: ImageSize
  voiceAccent :: VoiceAccent
  generatedData :: "GeneratedAsset option"
  error :: "jsstring option"
  loadingStep :: jsstring

definition App_init :: App where
  "App_init = \<lparr>state = INPUT, competency = [], imageSize = Size_1K, voiceAccent = American,
     generatedData = None, error = None, loadingStep = []\<rparr>"

text \<open>
  The outcome of one run of \<^verbatim>\<open>generateContent\<close>: the component state, and what the run
  did to the outside: how many times the key-selection dialog was opened, and the image
  and audio requests it issued, in the order of issue, each with the position it was
  issued for. \<open>rejected\<close> tells whether an exception left the \<^verbatim>\<open>catch\<close> block, so that
  the promise of \<^verbatim>\<open>generateContent\<close> rejects and the statements after the throwing
  one never run.
\<close>

record Run =
  app :: App
  keyDialogs :: nat
  imageRequests :: "(nat \<times> jsstring \<times> ImageSize) list"
  audioRequests :: "(nat \<times> jsstring \<times> VoiceAccent) list"
  rejected :: bool

text \<open>\<^verbatim>\<open>handleApiKeyCheck\<close>: the number of dialogs it opens.\<close>

definition handleApiKeyCheck :: "Collaborators \<Rightarrow> nat" where
  "handleApiKeyCheck env =
     (case aistudio env of
        None \<Rightarrow> 0
      | Some host \<Rightarrow> if \<not> hasSelectedApiKey host then 1 else 0)"

text \<open>
  The guarded task of one slide with a visual. The first component is the request it
  issues, if any; the second is the pair \<^verbatim>\<open>{ index, url }\<close> it resolves to. An
  exception of the client is caught and gives \<^verbatim>\<open>url: undefined\<close>.
\<close>

definition imagePromise ::
  "Collaborators \<Rightarrow> ImageSize \<Rightarrow> Slide \<times> nat
     \<Rightarrow> (nat \<times> jsstring \<times> ImageSize) list \<times> (nat \<times> jsstring option)" where
  "imagePromise env size0 item =
     (case item of (slide, index) \<Rightarrow>
        (case visualPrompt slide of
           None \<Rightarrow> ([], (index, None))
         | Some prompt \<Rightarrow>
             if prompt = [] then ([], (index, None))
             else ([(index, prompt, size0)],
                   (index, case deckImage env index prompt size0 of
                             Inl e \<Rightarrow> None
                           | Inr url \<Rightarrow> url))))"

text \<open>The guarded audio task of one slide, resolving to \<^verbatim>\<open>{ index, data }\<close>.\<close>

definition audioPromise ::
  "Collaborators \<Rightarrow> VoiceAccent \<Rightarrow> Slide \<times> nat
     \<Rightarrow> (nat \<times> jsstring \<times> VoiceAccent) list \<times> (nat \<times> jsstring option)" where
  "audioPromise env accent item =
     (case item of (slide, index) \<Rightarrow>
        if audioScript slide = [] then ([], (index, None))
        else ([(index, audioScript slide, accent)],
              (index, case slideAudio env index (audioScript slide) accent of
                        Inl e \<Rightarrow> None
                      | Inr data \<Rightarrow> data)))"

text \<open>
  \<^verbatim>\<open>results.forEach(res => { if (res.url) map[res.index] = res.url })\<close>, starting from
  the empty object.
\<close>

definition put_asset :: "(nat \<rightharpoonup> jsstring) \<Rightarrow> nat \<times> jsstring option \<Rightarrow> (nat \<rightharpoonup> jsstring)" where
  "put_asset m res =
     (case res of
        (index, None) \<Rightarrow> m
      | (index, Some v) \<Rightarrow> if v = [] then m else m(index \<mapsto> v))"

definition collect_assets :: "(nat \<times> jsstring option) list \<Rightarrow> (nat \<rightharpoonup> jsstring)" where
  "collect_assets results = foldl put_asset Map.empty results"

text \<open>
  The test \<^verbatim>\<open>err.message?.includes("Requested entity was not found")\<close> of the
  \<^verbatim>\<open>catch\<close> block: \<open>None\<close> when evaluating it throws, otherwise the truthiness of its
  value. The optional chaining guards \<^verbatim>\<open>message\<close>, not \<^verbatim>\<open>err\<close>.
\<close>

definition entityNotFound :: "thrown \<Rightarrow> bool option" where
  "entityNotFound err =
     (case err of
        Nullish \<Rightarrow> None
      | Thrown None \<Rightarrow> Some False
      | Thrown (Some m) \<Rightarrow> Some (str_includes m (js ''Requested entity was not found''))
      | OddMessage r \<Rightarrow> r)"

definition msg_configuration :: jsstring where
  "msg_configuration = js (''API configuration error. Please select a valid project ''
     @ ''with an active billing account.'')"

definition msg_generic :: jsstring where
  "msg_generic = js ''Failed to generate content. Please check your connection and try again.''"

text \<open>\<^verbatim>\<open>slides.map((slide, index) => ({ slide, index }))\<close>.\<close>

definition indexed :: "'a list \<Rightarrow> ('a \<times> nat) list" where
  "indexed xs = zip xs [0..<length xs]"

text \<open>
  \<^verbatim>\<open>generateContent(topic, size)\<close>, run from the component state \<open>a\<close>. The accent is
  the component's \<^verbatim>\<open>voiceAccent\<close>. The tasks are created images first, then audio,
  each list in slide order; both groups are awaited and folded into the two maps.
  In the \<^verbatim>\<open>catch\<close> block an exception of the message test or of the awaited dialog
  leaves the function before \<^verbatim>\<open>setError\<close> and \<^verbatim>\<open>setState(AppState.ERROR)\<close>: the
  component keeps the state it had, LOADING with no error text.
\<close>

definition generateContent :: "Collaborators \<Rightarrow> App \<Rightarrow> jsstring \<Rightarrow> ImageSize \<Rightarrow> Run" where
  "generateContent env a topic0 size0 =
     (let dialogs = handleApiKeyCheck env;
          a1 = a\<lparr>state := LOADING, error := None,
                 loadingStep := js ''Generating course structure (15 slides)...''\<rparr>
      in case deckText env topic0 of
           Inr deckContent \<Rightarrow>
             (let slidesWithVisuals =
                    filter (\<lambda>item. slide_type (fst item) = DEEP_DIVE
                                     \<and> truthy (visualPrompt (fst item)))
                      (indexed (slides deckContent));
                  a2 = a1\<lparr>loadingStep := js ''Designing infographics and recording audio...''\<rparr>;
                  imagePromises = map (imagePromise env size0) slidesWithVisuals;
                  audioPromises = map (audioPromise env (voiceAccent a))
                                    (indexed (slides deckContent));
                  imagesMap = collect_assets (map snd imagePromises);
                  audioMap = collect_assets (map snd audioPromises)
              in \<lparr>app = a2\<lparr>generatedData :=
                              Some \<lparr>deck = deckContent, images = imagesMap, audio = audioMap\<rparr>,
                            state := DECK\<rparr>,
                  keyDialogs = dialogs,
                  imageRequests = concat (map fst imagePromises),
                  audioRequests = concat (map fst audioPromises),
                  rejected = False\<rparr>)
         | Inl err \<Rightarrow>
             (case entityNotFound err of
                None \<Rightarrow>
                  \<lparr>app = a1, keyDialogs = dialogs,
                   imageRequests = [], audioRequests = [], rejected = True\<rparr>
              | Some True \<Rightarrow>
                  (case aistudio env of
                     None \<Rightarrow>
                       \<lparr>app = a1\<lparr>error := Some msg_configuration, state := ERROR\<rparr>,
                        keyDialogs = dialogs,
                        imageRequests = [], audioRequests = [], rejected = False\<rparr>
                   | Some host \<Rightarrow>
                       (case openSelectKey host of
                          Inl e \<Rightarrow>
                            \<lparr>app = a1, keyDialogs = dialogs + 1,
                             imageRequests = [], audioRequests = [], rejected = True\<rparr>
                        | Inr u \<Rightarrow>
                            \<lparr>app = a1\<lparr>error := Some msg_configuration, state := ERROR\<rparr>,
                             keyDialogs = dialogs + 1,
                             imageRequests = [], audioRequests = [], rejected = False\<rparr>))
              | Some False \<Rightarrow>
                  \<lparr>app = a1\<lparr>error := Some msg_generic, state := ERROR\<rparr>,
                   keyDialogs = dialogs,
                   imageRequests = [], audioRequests = [], rejected = False\<rparr>))"

text \<open>
  The orchestrator wired to the client of the previous section: one text client and the
  parser, and for every slide position the image and the speech client its call gets.
\<close>

definition service ::
  "AIStudio option \<Rightarrow> thrown + text_backend \<Rightarrow> (jsstring \<Rightarrow> thrown + DeckContent)
     \<Rightarrow> (nat \<Rightarrow> thrown + image_backend) \<Rightarrow> (nat \<Rightarrow> thrown + speech_backend)
     \<Rightarrow> Collaborators" where
  "service studio text_ai JSON_parse image_ai speech_ai =
     \<lparr>aistudio = studio,
      deckText = generateDeckText text_ai JSON_parse,
      deckImage = (\<lambda>index. generateDeckImage (image_ai index)),
      slideAudio = (\<lambda>index. generateSlideAudio (speech_ai index))\<rparr>"

section \<open>The audio decoder (components/Deck.tsx)\<close>

type_synonym bytes = "8 word list"

text \<open>
  The \<^verbatim>\<open>DataView\<close> setters on the buffer, little-endian. A write that does not fit in
  the buffer throws a \<^verbatim>\<open>RangeError\<close>: \<open>None\<close>. The value is reduced to the width of
  the field, as the setters do.
\<close>

definition setUint8 :: "bytes \<Rightarrow> nat \<Rightarrow> 8 word \<Rightarrow> bytes option" where
  "setUint8 view byteOffset v =
     (if byteOffset + 1 \<le> length view then Some (view[byteOffset := v]) else None)"

definition setUint16 :: "bytes \<Rightarrow> nat \<Rightarrow> 16 word \<Rightarrow> bytes option" where
  "setUint16 view byteOffset v =
     (if byteOffset + 2 \<le> length view
      then Some (view[byteOffset := ucast v, byteOffset + 1 := ucast (drop_bit 8 v)])
      else None)"

definition setUint32 :: "bytes \<Rightarrow> nat \<Rightarrow> 32 word \<Rightarrow> bytes option" where
  "setUint32 view byteOffset v =
     (if byteOffset + 4 \<le> length view
      then Some (view[byteOffset := ucast v, byteOffset + 1 := ucast (drop_bit 8 v),
                      byteOffset + 2 := ucast (drop_bit 16 v),
                      byteOffset + 3 := ucast (drop_bit 24 v)])
      else None)"

text \<open>\<^verbatim>\<open>writeString\<close>: one \<^verbatim>\<open>setUint8\<close> per code unit of the string.\<close>

fun writeString :: "bytes \<Rightarrow> nat \<Rightarrow> jsstring \<Rightarrow> bytes option" where
  "writeString view offset [] = Some view"
| "writeString view offset (c # cs) =
     (case setUint8 view offset (ucast c) of
        None \<Rightarrow> None
      | Some view' \<Rightarrow> writeString view' (offset + 1) cs)"

text \<open>
  The copy loop \<^verbatim>\<open>for (i = 0; i < len; i++) bytes[i] = binaryString.charCodeAt(i)\<close>,
  where \<^verbatim>\<open>bytes\<close> is the \<^verbatim>\<open>Uint8Array\<close> over the buffer from offset 44. A typed
  array ignores a store outside its range and keeps the low 8 bits of the value.
\<close>

function fill_samples :: "jsstring \<Rightarrow> nat \<Rightarrow> bytes \<Rightarrow> bytes" where
  "fill_samples binaryString i buffer =
     (if i < length binaryString
      then fill_samples binaryString (i + 1)
             (if 44 + i < length buffer
              then buffer[44 + i := ucast (binaryString ! i)] else buffer)
      else buffer)"
  by pat_completeness auto
termination
  by (relation "measure (\<lambda>(s, i, b). length s - i)") auto

declare fill_samples.simps [simp del]

text \<open>
  \<^verbatim>\<open>pcmToWavBlob\<close>. \<^verbatim>\<open>atob\<close> is the platform's base64 decoder, a parameter: it
  throws on a malformed input (\<open>None\<close>) and otherwise returns the binary string, one code
  unit per decoded byte. The result is the content of the blob behind the object URL.
  The lengths written into the header are reduced modulo \<open>2 ^ 32\<close> by \<^verbatim>\<open>setUint32\<close>.
\<close>

definition pcmToWavBlob :: "(jsstring \<Rightarrow> jsstring option) \<Rightarrow> jsstring \<Rightarrow> bytes option" where
  "pcmToWavBlob atob base64PCM =
     do {
       binaryString \<leftarrow> atob base64PCM;
       let len = length binaryString;
       let buffer = replicate (44 + len) (0 :: 8 word);
       view \<leftarrow> writeString buffer 0 (js ''RIFF'');
       view \<leftarrow> setUint32 view 4 (of_nat (36 + len));
       view \<leftarrow> writeString view 8 (js ''WAVE'');
       view \<leftarrow> writeString view 12 (js ''fmt '');
       view \<leftarrow> setUint32 view 16 16;
       view \<leftarrow> setUint16 view 20 1;
       view \<leftarrow> setUint16 view 22 1;
       view \<leftarrow> setUint32 view 24 24000;
       view \<leftarrow> setUint32 view 28 (24000 * 2);
       view \<leftarrow> setUint16 view 32 2;
       view \<leftarrow> setUint16 view 34 16;
       view \<leftarrow> writeString view 36 (js ''data'');
       view \<leftarrow> setUint32 view 40 (of_nat len);
       Some (fill_samples binaryString 0 view)
     }"

text \<open>
  The reader's side: little-endian fields of a container, and the four-character tags.
\<close>

definition getUint16 :: "bytes \<Rightarrow> nat \<Rightarrow> 16 word" where
  "getUint16 view off = ucast (view ! off) OR push_bit 8 (ucast (view ! (off + 1)))"

definition getUint32 :: "bytes \<Rightarrow> nat \<Rightarrow> 32 word" where
  "getUint32 view off =
     ucast (view ! off) OR push_bit 8 (ucast (view ! (off + 1)))
       OR push_bit 16 (ucast (view ! (off + 2))) OR push_bit 24 (ucast (view ! (off + 3)))"

definition tag_at :: "bytes \<Rightarrow> nat \<Rightarrow> bytes" where
  "tag_at view off = take 4 (drop off view)"

definition ascii :: "string \<Rightarrow> bytes" where
  "ascii s = map (\<lambda>c. of_nat (of_char c)) s"

text \<open>
  What a reader of the container returns: the declared format and the sample data.
\<close>

record wav_audio =
  numChannels :: nat
  sampleRate :: nat
  bitsPerSample :: nat
  sampleData :: bytes

text \<open>
  The chunk walk of a RIFF reader: from offset \<open>off\<close>, the payload offset and the declared
  size of the first chunk with the given tag; a chunk is followed by a pad byte when its
  size is odd.
\<close>

function find_chunk :: "bytes \<Rightarrow> bytes \<Rightarrow> nat \<Rightarrow> (nat \<times> nat) option" where
  "find_chunk tag file off =
     (if length file < off + 8 then None
      else (let size = unat (getUint32 file (off + 4))
            in if tag_at file off = tag then Some (off + 8, size)
               else find_chunk tag file (off + 8 + size + size mod 2)))"
  by pat_completeness auto
termination
  by (relation "measure (\<lambda>(tag, file, off). length file - off)") auto

declare find_chunk.simps [simp del]

text \<open>
  A standard reader of PCM WAVE files, written from the format and not from the program:
  it checks the RIFF and WAVE tags, finds the \<^verbatim>\<open>fmt\<close> chunk (at least 16 bytes,
  format tag 1 for linear PCM, block align and byte rate consistent with channels, bits
  and rate), finds the \<^verbatim>\<open>data\<close> chunk and returns the whole sample frames that the
  declared size and the file hold.
\<close>

definition read_wav :: "bytes \<Rightarrow> wav_audio option" where
  "read_wav file =
     (if length file < 12 \<or> tag_at file 0 \<noteq> ascii ''RIFF'' \<or> tag_at file 8 \<noteq> ascii ''WAVE''
      then None
      else case find_chunk (ascii ''fmt '') file 12 of
        None \<Rightarrow> None
      | Some (p, n) \<Rightarrow>
          if n < 16 \<or> length file < p + 16 \<or> getUint16 file p \<noteq> 1 then None
          else (let channels = unat (getUint16 file (p + 2));
                    rate = unat (getUint32 file (p + 4));
                    byteRate = unat (getUint32 file (p + 8));
                    blockAlign = unat (getUint16 file (p + 12));
                    bits = unat (getUint16 file (p + 14))
                in if blockAlign = 0 \<or> blockAlign * 8 \<noteq> channels * bits
                      \<or> byteRate \<noteq> rate * blockAlign then None
                   else case find_chunk (ascii ''data'') file 12 of
                     None \<Rightarrow> None
                   | Some (q, m) \<Rightarrow>
                       (let available = min m (length file - q);
                            frames = available div blockAlign
                        in Some \<lparr>numChannels = channels, sampleRate = rate,
                                 bitsPerSample = bits,
                                 sampleData = take (frames * blockAlign) (drop q file)\<rparr>)))"

text \<open>The 44 header bytes for a payload of \<open>len\<close> bytes, and the zeroed header area.\<close>

definition le32 :: "32 word \<Rightarrow> bytes" where
  "le32 v = [ucast v, ucast (drop_bit 8 v), ucast (drop_bit 16 v), ucast (drop_bit 24 v)]"

definition wav_header :: "nat \<Rightarrow> bytes" where
  "wav_header len =
     [0x52, 0x49, 0x46, 0x46] @ le32 (of_nat (36 + len)) @ [0x57, 0x41, 0x56, 0x45]
     @ [0x66, 0x6D, 0x74, 0x20] @ [16, 0, 0, 0] @ [1, 0] @ [1, 0]
     @ [0xC0, 0x5D, 0, 0] @ [0x80, 0xBB, 0, 0] @ [2, 0] @ [16, 0]
     @ [0x64, 0x61, 0x74, 0x61] @ le32 (of_nat len)"

definition zeros44 :: bytes where
  "zeros44 =
     [0, 0, 0, 0, 0, 0, 0, 0, 0, 0, 0, 0, 0, 0, 0, 0, 0, 0, 0, 0, 0, 0,
      0, 0, 0, 0, 0, 0, 0, 0, 0, 0, 0, 0, 0, 0, 0, 0, 0, 0, 0, 0, 0, 0]"

section \<open>Deck player navigation (components/Deck.tsx)\<close>

datatype direction = Forward | Backward

text \<open>
  The navigation state of the player: \<^verbatim>\<open>slideIndex\<close> (a JavaScript number, initially 0)
  and the animation \<^verbatim>\<open>direction\<close> (initially forward).
\<close>

record DeckNav =
  slideIndex :: int
  direction :: direction

definition DeckNav_init :: DeckNav where
  "DeckNav_init = \<lparr>slideIndex = 0, direction = Forward\<rparr>"

text \<open>
  The PREV handler: \<^verbatim>\<open>setDirection('backward'); if (slideIndex > 0) setSlideIndex(v => v - 1)\<close>.
\<close>

definition nav_prev :: "DeckNav \<Rightarrow> DeckNav" where
  "nav_prev st =
     (let st1 = st\<lparr>direction := Backward\<rparr>
      in if slideIndex st > 0 then st1\<lparr>slideIndex := slideIndex st - 1\<rparr> else st1)"

text \<open>
  The NEXT handler: at \<^verbatim>\<open>slides.length - 1\<close> it calls \<^verbatim>\<open>onRestart\<close>, which returns
  the application to the input screen and unmounts the player (result \<open>None\<close>);
  otherwise it moves forward. The argument \<open>n\<close> is \<^verbatim>\<open>slides.length\<close>.
\<close>

definition nav_next :: "nat \<Rightarrow> DeckNav \<Rightarrow> DeckNav option" where
  "nav_next n st =
     (if slideIndex st = int n - 1 then None
      else Some (st\<lparr>direction := Forward, slideIndex := slideIndex st + 1\<rparr>))"

datatype nav_event = PREV | NEXT

fun nav_step :: "nat \<Rightarrow> DeckNav \<Rightarrow> nav_event \<Rightarrow> DeckNav option" where
  "nav_step n st PREV = Some (nav_prev st)"
| "nav_step n st NEXT = nav_next n st"

text \<open>
  A session of clicks; once the player has been unmounted no click reaches it. A click is
  handled on the state that was rendered, so the \<^verbatim>\<open>slideIndex\<close> tested by a handler
  and the value its updater receives are the same.
\<close>

fun nav_run :: "nat \<Rightarrow> nav_event list \<Rightarrow> DeckNav \<Rightarrow> DeckNav option" where
  "nav_run n [] st = Some st"
| "nav_run n (e # es) st =
     (case nav_step n st e of None \<Rightarrow> None | Some st' \<Rightarrow> nav_run n es st')"

section \<open>Quiz card (components/QuizCard)\<close>

text \<open>
  The two \<^verbatim>\<open>useState\<close> cells of the component: \<^verbatim>\<open>selectedIndex\<close> is
  \<^verbatim>\<open>number | null\<close> (initially \<^verbatim>\<open>null\<close>), \<^verbatim>\<open>isSubmitted\<close> a boolean
  (initially \<^verbatim>\<open>false\<close>).
\<close>

record QuizCard =
  selectedIndex :: "int option"
  isSubmitted :: bool

definition QuizCard_init :: QuizCard where
  "QuizCard_init = \<lparr>selectedIndex = None, isSubmitted = False\<rparr>"

definition handleSelect :: "int \<Rightarrow> QuizCard \<Rightarrow> QuizCard" where
  "handleSelect index st =
     (if isSubmitted st then st else st\<lparr>selectedIndex := Some index\<rparr>)"

definition handleSubmit :: "QuizCard \<Rightarrow> QuizCard" where
  "handleSubmit st =
     (if selectedIndex st = None then st else st\<lparr>isSubmitted := True\<rparr>)"

text \<open>The user's clicks: an option button (with its index) or the "Check Answer" button.\<close>

datatype quiz_event = Select int | Submit

fun quiz_step :: "QuizCard \<Rightarrow> quiz_event \<Rightarrow> QuizCard" where
  "quiz_step st (Select index) = handleSelect index st"
| "quiz_step st Submit = handleSubmit st"

definition quiz_run :: "quiz_event list \<Rightarrow> QuizCard \<Rightarrow> QuizCard" where
  "quiz_run evs st = foldl quiz_step st evs"

text \<open>
  The verdict banner is rendered only when \<^verbatim>\<open>isSubmitted\<close> holds; its text is chosen
  by \<^verbatim>\<open>selectedIndex === data.correctIndex\<close>.
\<close>

datatype verdict = Correct | NotQuite

definition quiz_verdict :: "QuizData \<Rightarrow> QuizCard \<Rightarrow> verdict option" where
  "quiz_verdict data st =
     (if isSubmitted st
      then Some (if selectedIndex st = Some (correctIndex data) then Correct else NotQuite)
      else None)"

definition verdict_text :: "verdict \<Rightarrow> jsstring" where
  "verdict_text v =
     (case v of Correct \<Rightarrow> js ''Correct! Great job.''
      | NotQuite \<Rightarrow> js ''Not quite. Review the Deep Dive module.'')"

section \<open>Answers that conform to the response schema\<close>

text \<open>
  JSON values, and what it means for one to conform to a schema; this is written from the
  schema language and not from the program, which never compares an answer with the
  schema it sent. A string conforms to \<^verbatim>\<open>STRING\<close> when the \<^verbatim>\<open>enum\<close>, if there is
  one, lists it; an array when every element conforms to \<^verbatim>\<open>items\<close>; an object when
  it has every \<^verbatim>\<open>required\<close> key, no key outside \<^verbatim>\<open>properties\<close>, and every
  property it has conforms.
\<close>

datatype json =
    JNull
  | JBool bool
  | JNumber real
  | JString jsstring
  | JArray "json list"
  | JObject "(string \<times> json) list"

fun conforms :: "schema \<Rightarrow> json \<Rightarrow> bool" where
  "conforms (STRING allowed) (JString s) =
     (case allowed of None \<Rightarrow> True | Some vs \<Rightarrow> s \<in> set vs)"
| "conforms NUMBER (JNumber x) = True"
| "conforms INTEGER (JNumber x) = (x \<in> \<int>)"
| "conforms (ARRAY item) (JArray vs) = (\<forall>v \<in> set vs. conforms item v)"
| "conforms (OBJECT props req) (JObject fs) =
     ((\<forall>k \<in> set req. k \<in> fst ` set fs)
      \<and> (\<forall>k \<in> fst ` set fs. k \<in> fst ` set props)
      \<and> (\<forall>p \<in> set props.
            case map_of fs (fst p) of None \<Rightarrow> True | Some v \<Rightarrow> conforms (snd p) v))"
| "conforms _ _ = False"


text \<open>
  A deck as the JSON value it is: the fields of the interfaces of types.ts, an optional
  field being present exactly when it is defined.
\<close>

definition optional_field :: "string \<Rightarrow> ('a \<Rightarrow> json) \<Rightarrow> 'a option \<Rightarrow> (string \<times> json) list" where
  "optional_field k f v = (case v of None \<Rightarrow> [] | Some x \<Rightarrow> [(k, f x)])"

definition vocabulary_json :: "VocabularyItem \<Rightarrow> json" where
  "vocabulary_json v =
     JObject [(''term'', JString (item_term v)), (''definition'', JString (item_definition v))]"

definition quiz_json :: "QuizData \<Rightarrow> json" where
  "quiz_json q =
     JObject [(''question'', JString (question q)),
              (''options'', JArray (map JString (options q))),
              (''correctIndex'', JNumber (of_int (correctIndex q)))]"

definition slide_json :: "Slide \<Rightarrow> json" where
  "slide_json s =
     JObject ([(''type'', JString (slide_type s)),
               (''title'', JString (title s)),
               (''content'', JString (content s)),
               (''audioScript'', JString (audioScript s)),
               (''audioDurationEstimate'', JNumber (audioDurationEstimate s))]
              @ optional_field ''visualPrompt'' JString (visualPrompt s)
              @ optional_field ''vocabulary'' (\<lambda>vs. JArray (map vocabulary_json vs)) (vocabulary s)
              @ optional_field ''quiz'' quiz_json (quiz s))"

definition deck_json :: "DeckContent \<Rightarrow> json" where
  "deck_json d =
     JObject [(''topic'', JString (topic d)), (''slides'', JArray (map slide_json (slides d)))]"

section \<open>The wording of the deck-call failure\<close>

text \<open>
  The two failure conditions as the specification words them, over what the awaited
  request gave: "the service returns no content" (absent or empty text) and "malformed
  JSON" (a non-empty text that the parser rejects).
\<close>

definition spec_no_content :: "thrown + jsstring option \<Rightarrow> bool" where
  "spec_no_content r = (r = Inr None \<or> r = Inr (Some []))"

definition spec_malformed_json ::
  "(jsstring \<Rightarrow> thrown + DeckContent) \<Rightarrow> thrown + jsstring option \<Rightarrow> bool" where
  "spec_malformed_json JSON_parse r =
     (case r of Inr (Some text) \<Rightarrow> text \<noteq> [] \<and> isl (JSON_parse text) | _ \<Rightarrow> False)"

section \<open>Concrete inputs\<close>

text \<open>Inputs at which the theorems below are instantiated.\<close>

definition quiz_example :: QuizData where
  "quiz_example = \<lparr>question = js ''q'', options = [js ''a'', js ''b'', js ''c''],
     correctIndex = 1\<rparr>"

definition mk_slide :: "SlideType \<Rightarrow> jsstring \<Rightarrow> jsstring option \<Rightarrow> Slide" where
  "mk_slide ty script prompt =
     \<lparr>slide_type = ty, title = js ''title'', content = js ''content'', audioScript = script,
      audioDurationEstimate = 30, visualPrompt = prompt, vocabulary = None, quiz = None\<rparr>"

definition three_slides :: "Slide list" where
  "three_slides = [mk_slide INTRO (js ''a'') None, mk_slide VOCABULARY (js ''b'') None,
     mk_slide CONCLUSION (js ''c'') None]"

text \<open>A decoder that knows one input: \<^verbatim>\<open>atob("AAEC/w==")\<close> is the bytes 0, 1, 2, 255.\<close>

definition atob_example :: "jsstring \<Rightarrow> jsstring option" where
  "atob_example s = (if s = js ''AAEC/w=='' then Some [0, 1, 2, 255] else None)"

definition deck_example :: DeckContent where
  "deck_example = \<lparr>topic = js ''supply and demand'',
     slides = [mk_slide INTRO (js ''a'') None,
               mk_slide DEEP_DIVE (js ''b'') (Some (js ''diagram of supply curve'')),
               mk_slide DEEP_DIVE [] (Some []),
               mk_slide VOCABULARY (js ''d'') (Some (js ''ignored'')),
               mk_slide DEEP_DIVE (js ''e'') None,
               mk_slide DEEP_DIVE (js ''f'') (Some (js ''curve''))]\<rparr>"

definition host_example :: AIStudio where
  "host_example = \<lparr>hasSelectedApiKey = True, openSelectKey = Inr ()\<rparr>"

definition env_example :: Collaborators where
  "env_example = \<lparr>aistudio = Some host_example,
     deckText = (\<lambda>t. Inr deck_example),
     deckImage = (\<lambda>i p s. if i = 1 then Inl (Thrown None) else Inr (Some (js ''data:image/png;base64,AAAA''))),
     slideAudio = (\<lambda>i p v. if i = 0 then Inr None
                            else if i = 3 then Inl (Thrown (Some (js ''quota'')))
                            else Inr (Some (js ''AAEC'')))\<rparr>"

definition deck_two :: DeckContent where
  "deck_two = \<lparr>topic = js ''t'',
     slides = [mk_slide INTRO (js ''a'') None, mk_slide INTRO (js ''b'') None]\<rparr>"

definition backend_quota :: speech_backend where
  "backend_quota p v = Inl (Thrown (Some (js ''quota exceeded'')))"

definition backend_empty_payload :: speech_backend where
  "backend_empty_payload p v =
     Inr (Some [Candidate (Some (Content (Some [Part (Some (Some []))])))])"

definition speech_ai_example :: "nat \<Rightarrow> thrown + speech_backend" where
  "speech_ai_example i = (if i = 0 then Inr backend_quota else Inr backend_empty_payload)"

definition env_empty_audio :: Collaborators where
  "env_empty_audio = \<lparr>aistudio = None, deckText = (\<lambda>t. Inr deck_two),
     deckImage = (\<lambda>i p s. Inr None),
     slideAudio = (\<lambda>i. generateSlideAudio (speech_ai_example i))\<rparr>"

definition err_entity :: thrown where
  "err_entity = Thrown (Some (js ''Requested entity was not found''))"

definition err_network :: thrown where
  "err_network = Thrown (Some (js ''Failed to fetch''))"

definition env_failing :: "AIStudio option \<Rightarrow> thrown \<Rightarrow> Collaborators" where
  "env_failing studio err = \<lparr>aistudio = studio, deckText = (\<lambda>t. Inl err),
     deckImage = (\<lambda>i p s. Inr None), slideAudio = (\<lambda>i p v. Inr None)\<rparr>"

definition json_bogus_deck :: jsstring where
  \<open>json_bogus_deck =
     js (''{"topic":"t","slides":[{"type":"BOGUS","title":"title","content":"content",''
         @ ''"audioScript":"a","audioDurationEstimate":30}]}'')\<close>

definition deck_bogus :: DeckContent where
  "deck_bogus = \<lparr>topic = js ''t'', slides = [mk_slide (js ''BOGUS'') (js ''a'') None]\<rparr>"

definition json_kinds_deck :: jsstring where
  \<open>json_kinds_deck =
     js (''{"topic":"t","slides":[{"type":"INTRO","title":"title","content":"content",''
         @ ''"audioScript":"a","audioDurationEstimate":30},''
         @ ''{"type":"DEEP_DIVE","title":"title","content":"content",''
         @ ''"audioScript":"b","audioDurationEstimate":30,"visualPrompt":"curve"}]}'')\<close>

definition deck_kinds :: DeckContent where
  "deck_kinds = \<lparr>topic = js ''t'',
     slides = [mk_slide INTRO (js ''a'') None,
               mk_slide DEEP_DIVE (js ''b'') (Some (js ''curve''))]\<rparr>"

definition parse_example :: "jsstring \<Rightarrow> thrown + DeckContent" where
  "parse_example s =
     (if s = json_bogus_deck then Inr deck_bogus
      else if s = json_kinds_deck then Inr deck_kinds
      else Inl (Thrown (Some (js ''Unexpected token''))))"

definition backend_bogus_deck :: text_backend where
  "backend_bogus_deck p = Inr (Some json_bogus_deck)"

definition backend_kinds_deck :: text_backend where
  "backend_kinds_deck p = Inr (Some json_kinds_deck)"

definition backend_rejecting :: text_backend where
  "backend_rejecting p = Inl err_entity"

definition backend_no_text :: text_backend where
  "backend_no_text p = Inr None"

definition image_ai_none :: "nat \<Rightarrow> thrown + image_backend" where
  "image_ai_none i = Inr (\<lambda>m p s. Inr None)"

section \<open>The sanitizer's character classes\<close>

text \<open>The characters the sanitizer replaces or strips, and the strings free of them.\<close>

definition special :: "16 word list" where
  "special = [0x3A3, 0x394, 0x2260, 0x2248, 0xB1] @ markup"

definition plain :: "jsstring \<Rightarrow> bool" where
  "plain s = (\<forall>x \<in> set s. x \<notin> set special)"

section \<open>Properties of the narration sanitizer\<close>

lemma replace_all_append: "replace_all c r (xs @ ys) = replace_all c r xs @ replace_all c r ys"
  by (simp add: replace_all_def)

lemma strip_markup_append: "strip_markup (xs @ ys) = strip_markup xs @ strip_markup ys"
  by (simp add: strip_markup_def)

lemma cleanText_append: "cleanText (xs @ ys) = cleanText xs @ cleanText ys"
  by (simp add: cleanText_def replace_all_append strip_markup_append)

lemma cleanText_Nil: "cleanText [] = []"
  by (simp add: cleanText_def replace_all_def strip_markup_def)

lemma replace_all_absent: "c \<notin> set s \<Longrightarrow> replace_all c r s = s"
  by (induction s) (auto simp: replace_all_def)

lemma cleanText_plain: "plain s \<Longrightarrow> cleanText s = s"
  unfolding plain_def cleanText_def
  apply (subst replace_all_absent, force simp: special_def)+
  apply (simp add: strip_markup_def special_def)
  done

lemma plain_words:
  "plain (js ''sum of '')" "plain (js ''change in '')" "plain (js ''is not equal to '')"
  "plain (js ''is approximately '')" "plain (js ''plus or minus '')"
  by (simp_all add: plain_def js_def special_def markup_def)

lemma replace_all_single: "replace_all c r [x] = (if x = c then r else [x])"
  by (simp add: replace_all_def)

lemma replace_all_plain: "plain s \<Longrightarrow> c \<in> set special \<Longrightarrow> replace_all c r s = s"
  by (rule replace_all_absent) (auto simp: plain_def)

lemma strip_markup_plain: "plain s \<Longrightarrow> strip_markup s = s"
  by (auto simp: plain_def strip_markup_def special_def filter_id_conv)

lemma strip_markup_single: "strip_markup [x] = (if x \<in> set markup then [] else [x])"
  by (simp add: strip_markup_def)

lemma special_members:
  "0x3A3 \<in> set special" "0x394 \<in> set special" "0x2260 \<in> set special"
  "0x2248 \<in> set special" "0xB1 \<in> set special"
  by (simp_all add: special_def)

lemma cleanText_single:
  "cleanText [x] =
    (if x = 0x3A3 then js ''sum of ''
     else if x = 0x394 then js ''change in ''
     else if x = 0x2260 then js ''is not equal to ''
     else if x = 0x2248 then js ''is approximately ''
     else if x = 0xB1 then js ''plus or minus ''
     else if x \<in> set markup then [] else [x])"
  unfolding cleanText_def
  by (simp add: replace_all_single replace_all_plain strip_markup_plain strip_markup_single
      plain_words special_members del: set_simps)

lemma plain_cleanText_single: "plain (cleanText [x])"
  unfolding cleanText_single using plain_words
  by (auto simp: plain_def special_def)

lemma plain_append: "plain (xs @ ys) \<longleftrightarrow> plain xs \<and> plain ys"
  by (auto simp: plain_def)

lemma plain_cleanText: "plain (cleanText s)"
proof (induction s)
  case Nil
  then show ?case by (simp add: cleanText_Nil plain_def)
next
  case (Cons x xs)
  have "cleanText (x # xs) = cleanText [x] @ cleanText xs"
    using cleanText_append [of "[x]" xs] by simp
  then show ?case using Cons.IH plain_cleanText_single by (simp add: plain_append)
qed

text \<open>
  Claim C5. The sanitization of \<^verbatim>\<open>generateSlideAudio\<close> (the five symbol-to-word
  replacements, then the stripping of the markup characters) is idempotent on every
  string.
\<close>

theorem cleanText_idempotent: "cleanText (cleanText s) = cleanText s"
proof -
  have "plain (cleanText s)"
    by (rule plain_cleanText)
  then show ?thesis
    by (rule cleanText_plain)
qed

section \<open>Properties of the audio decoder\<close>

lemma list_update_Cons_numeral [simp]:
  "(x # xs)[numeral n := y] = x # xs[pred_numeral n := y]"
  by (simp add: numeral_eq_Suc)

lemma replicate_numeral_Cons:
  "replicate (numeral n) x = x # replicate (pred_numeral n) x"
  by (simp add: numeral_eq_Suc)

lemma header_written:
  "do {
       view \<leftarrow> writeString (zeros44 @ rest) 0 (js ''RIFF'');
       view \<leftarrow> setUint32 view 4 a;
       view \<leftarrow> writeString view 8 (js ''WAVE'');
       view \<leftarrow> writeString view 12 (js ''fmt '');
       view \<leftarrow> setUint32 view 16 16;
       view \<leftarrow> setUint16 view 20 1;
       view \<leftarrow> setUint16 view 22 1;
       view \<leftarrow> setUint32 view 24 24000;
       view \<leftarrow> setUint32 view 28 (24000 * 2);
       view \<leftarrow> setUint16 view 32 2;
       view \<leftarrow> setUint16 view 34 16;
       view \<leftarrow> writeString view 36 (js ''data'');
       view \<leftarrow> setUint32 view 40 b;
       k view
     } = k ([0x52, 0x49, 0x46, 0x46] @ le32 a @ [0x57, 0x41, 0x56, 0x45]
     @ [0x66, 0x6D, 0x74, 0x20] @ [16, 0, 0, 0] @ [1, 0] @ [1, 0]
     @ [0xC0, 0x5D, 0, 0] @ [0x80, 0xBB, 0, 0] @ [2, 0] @ [16, 0]
     @ [0x64, 0x61, 0x74, 0x61] @ le32 b @ rest)"
proof -
  have n: "(24000 :: 8 word) = 192" "(48000 :: 8 word) = 128" by simp_all
  show ?thesis
    by (simp add: zeros44_def js_def setUint8_def setUint16_def setUint32_def le32_def n)
qed


lemma replicate_44_plus: "replicate (44 + n) (0::8 word) = zeros44 @ replicate n 0"
  by (simp add: replicate_add zeros44_def replicate_numeral_Cons)

lemma fill_samples_eq:
  "length buffer = 44 + length s \<Longrightarrow> i \<le> length s \<Longrightarrow>
   fill_samples s i buffer = take (44 + i) buffer @ map ucast (drop i s)"
proof (induction s i buffer rule: fill_samples.induct)
  case (1 s i buffer)
  show ?case
  proof (cases "i < length s")
    case False
    with "1.prems" show ?thesis by (simp add: fill_samples.simps)
  next
    case True
    let ?b = "buffer[44 + i := ucast (s ! i)]"
    have lt: "44 + i < length buffer" using True "1.prems" by simp
    have "fill_samples s i buffer = fill_samples s (i + 1) ?b"
      using True lt by (subst fill_samples.simps) simp
    also have "\<dots> = take (44 + (i + 1)) ?b @ map ucast (drop (i + 1) s)"
      using "1.IH" [OF True] "1.prems" True lt by simp
    also have "take (44 + (i + 1)) ?b = take (44 + i) buffer @ [ucast (s ! i)]"
    proof -
      have "44 + (i + 1) = Suc (44 + i)" by simp
      then show ?thesis using lt by (simp only: take_Suc_conv_app_nth length_list_update nth_list_update_eq take_update_cancel order_refl)
    qed
    also have "(take (44 + i) buffer @ [ucast (s ! i)]) @ map ucast (drop (i + 1) s)
        = take (44 + i) buffer @ map ucast (drop i s)"
      using True by (simp add: Cons_nth_drop_Suc [symmetric])
    finally show ?thesis .
  qed
qed

lemma length_le32: "length (le32 v) = 4"
  by (simp add: le32_def)

lemma length_wav_header: "length (wav_header n) = 44"
  by (simp add: wav_header_def length_le32)

lemma pcmToWavBlob_eq:
  assumes "atob base64PCM = Some binaryString"
  shows "pcmToWavBlob atob base64PCM
           = Some (wav_header (length binaryString) @ map ucast binaryString)"
proof -
  let ?len = "length binaryString"
  let ?h = "wav_header ?len @ replicate ?len 0"
  have len: "length ?h = 44 + ?len" by (simp add: length_wav_header)
  have "pcmToWavBlob atob base64PCM = Some (fill_samples binaryString 0 ?h)"
    unfolding pcmToWavBlob_def Let_def assms replicate_44_plus
    by (simp only: header_written wav_header_def append_assoc Option.bind.simps)
  also have "fill_samples binaryString 0 ?h = take 44 ?h @ map ucast binaryString"
    using fill_samples_eq [OF len, of 0] by simp
  also have "take 44 ?h = wav_header ?len" by (simp add: length_wav_header)
  finally show ?thesis .
qed

lemma le32_read: "getUint32 (pre @ le32 v @ post) (length pre) = v"
  apply (simp add: getUint32_def le32_def nth_append)
  apply (rule bit_word_eqI)
  subgoal for n
    by (cases "n < 8"; cases "n < 16"; cases "n < 24") (auto simp: bit_simps not_less)
  done


lemma ucast_8_16_8: "map ucast (map (ucast :: 8 word \<Rightarrow> 16 word) pcm) = (pcm :: 8 word list)"
proof -
  have "ucast (ucast x :: 16 word) = x" for x :: "8 word"
    by (rule bit_word_eqI) (auto simp: bit_simps)
  then show ?thesis by (induction pcm) simp_all
qed

lemma wav_header_data_length: "getUint32 (wav_header n @ rest) 40 = of_nat n"
proof -
  let ?pre = "take 40 (wav_header n)"
  have l: "length ?pre = 40" by (simp add: length_wav_header)
  have e: "wav_header n @ rest = ?pre @ le32 (of_nat n) @ rest"
    by (simp add: wav_header_def le32_def)
  show ?thesis by (subst e) (metis le32_read l)
qed

lemma wav_header_fields:
  "getUint16 (wav_header n @ rest) 22 = 1"
  "getUint32 (wav_header n @ rest) 24 = 24000"
  "getUint32 (wav_header n @ rest) 28 = 24000 * 2"
  "getUint16 (wav_header n @ rest) 32 = 2"
  "getUint16 (wav_header n @ rest) 34 = 16"
  by (simp_all add: wav_header_def le32_def getUint16_def getUint32_def)

lemma wav_header_tags:
  "tag_at (wav_header n @ rest) 0 = ascii ''RIFF''"
  "tag_at (wav_header n @ rest) 8 = ascii ''WAVE''"
  "tag_at (wav_header n @ rest) 12 = ascii ''fmt ''"
  "tag_at (wav_header n @ rest) 36 = ascii ''data''"
  by (simp_all add: wav_header_def le32_def tag_at_def ascii_def)

lemma wav_header_riff_size: "getUint32 (wav_header n @ rest) 4 = of_nat (36 + n)"
proof -
  let ?pre = "take 4 (wav_header n)"
  let ?post = "drop 8 (wav_header n) @ rest"
  have l: "length ?pre = 4" by (simp add: length_wav_header)
  have e: "wav_header n @ rest = ?pre @ le32 (of_nat (36 + n)) @ ?post"
    by (simp add: wav_header_def le32_def)
  show ?thesis by (subst e) (metis le32_read l)
qed

lemma wav_header_fmt:
  "getUint32 (wav_header n @ rest) 16 = 16"
  "getUint16 (wav_header n @ rest) 20 = 1"
  by (simp_all add: wav_header_def le32_def getUint16_def getUint32_def)

lemma find_fmt: "find_chunk (ascii ''fmt '') (wav_header n @ rest) 12 = Some (20, 16)"
  by (subst find_chunk.simps)
     (simp add: length_wav_header wav_header_tags wav_header_fmt)

lemma find_data:
  "find_chunk (ascii ''data'') (wav_header n @ rest) 12
     = Some (44, unat (getUint32 (wav_header n @ rest) 40))"
proof -
  have ne: "ascii ''fmt '' \<noteq> ascii ''data''" by (simp add: ascii_def)
  have "find_chunk (ascii ''data'') (wav_header n @ rest) 12
      = find_chunk (ascii ''data'') (wav_header n @ rest) 36"
    by (subst find_chunk.simps)
       (simp add: length_wav_header wav_header_tags wav_header_fmt ne)
  also have "\<dots> = Some (44, unat (getUint32 (wav_header n @ rest) 40))"
    by (subst find_chunk.simps)
       (simp add: length_wav_header wav_header_tags)
  finally show ?thesis .
qed

lemma read_wav_header:
  "read_wav (wav_header n @ rest) =
     Some \<lparr>numChannels = 1, sampleRate = 24000, bitsPerSample = 16,
           sampleData = take (min (unat (of_nat n :: 32 word)) (length rest) div 2 * 2) rest\<rparr>"
  unfolding read_wav_def
  by (simp add: find_fmt find_data wav_header_tags wav_header_fields wav_header_fmt
      wav_header_data_length length_wav_header Let_def)


text \<open>
  Claim C2. Let \<open>pcm\<close> be a raw PCM byte buffer of length \<open>L\<close> and \<open>base64PCM\<close> a base64
  text that \<^verbatim>\<open>atob\<close> decodes to it (the binary string with one code unit per byte).
  Then \<^verbatim>\<open>pcmToWavBlob\<close> returns the 44 header bytes \<open>wav_header L\<close> followed by \<open>pcm\<close>:
  a container of \<open>44 + L\<close> bytes with the tags RIFF, WAVE, fmt and data in place, a
  \<^verbatim>\<open>fmt\<close> chunk of size 16 with format tag 1 that declares 1 channel, sample rate
  24000, byte rate \<open>24000 * 2\<close>, block align 2 and 16 bits per sample, and a data chunk
  of length \<open>L\<close>; the bytes after the header are exactly \<open>pcm\<close>. The two length fields are
  32-bit words holding \<open>36 + L\<close> and \<open>L\<close>; read as a number the data length is \<open>L\<close>
  itself for \<open>L < 2 ^ 32\<close>, which the length of a JavaScript string satisfies in every
  engine. For such \<open>L\<close> the standard reader accepts the container, reports 1 channel,
  24000 Hz and 16 bits, and returns the whole 16-bit samples of \<open>pcm\<close>: all of \<open>pcm\<close> when
  \<open>L\<close> is even, and \<open>pcm\<close> without its last byte, which is half a sample, when \<open>L\<close> is odd.
\<close>

theorem pcm_wav_round_trip:
  assumes "atob base64PCM = Some (map ucast pcm)"
  shows "\<exists>wav. pcmToWavBlob atob base64PCM = Some wav
     \<and> wav = wav_header (length pcm) @ pcm
     \<and> length wav = 44 + length pcm
     \<and> tag_at wav 0 = ascii ''RIFF'' \<and> tag_at wav 8 = ascii ''WAVE''
     \<and> tag_at wav 12 = ascii ''fmt '' \<and> tag_at wav 36 = ascii ''data''
     \<and> getUint32 wav 4 = of_nat (36 + length pcm)
     \<and> getUint32 wav 16 = 16
     \<and> getUint16 wav 20 = 1
     \<and> getUint16 wav 22 = 1
     \<and> getUint32 wav 24 = 24000
     \<and> getUint32 wav 28 = 24000 * 2
     \<and> getUint16 wav 32 = 2
     \<and> getUint16 wav 34 = 16
     \<and> getUint32 wav 40 = of_nat (length pcm)
     \<and> (length pcm < 2 ^ 32 \<longrightarrow> unat (getUint32 wav 40) = length pcm)
     \<and> drop 44 wav = pcm
     \<and> (length pcm < 2 ^ 32 \<longrightarrow>
          read_wav wav = Some \<lparr>numChannels = 1, sampleRate = 24000, bitsPerSample = 16,
                                sampleData = take (length pcm div 2 * 2) pcm\<rparr>)
     \<and> (length pcm < 2 ^ 32 \<and> even (length pcm) \<longrightarrow>
          read_wav wav = Some \<lparr>numChannels = 1, sampleRate = 24000, bitsPerSample = 16,
                                sampleData = pcm\<rparr>)"
proof -
  let ?wav = "wav_header (length pcm) @ pcm"
  have w: "pcmToWavBlob atob base64PCM = Some ?wav"
    using pcmToWavBlob_eq [of atob base64PCM "map ucast pcm"] assms
    by (simp del: map_map add: ucast_8_16_8)
  have len: "length ?wav = 44 + length pcm" by (simp add: length_wav_header)
  have dl: "getUint32 ?wav 40 = of_nat (length pcm)"
    by (rule wav_header_data_length)
  have rs: "getUint32 ?wav 4 = of_nat (36 + length pcm)"
    by (rule wav_header_riff_size)
  have un: "length pcm < 2 ^ 32 \<longrightarrow> unat (getUint32 ?wav 40) = length pcm"
    by (simp add: wav_header_data_length unat_of_nat)
  have dr: "drop 44 ?wav = pcm" by (simp add: length_wav_header)
  have rd: "length pcm < 2 ^ 32 \<longrightarrow>
          read_wav ?wav = Some \<lparr>numChannels = 1, sampleRate = 24000, bitsPerSample = 16,
                                sampleData = take (length pcm div 2 * 2) pcm\<rparr>"
    by (simp add: read_wav_header unat_of_nat)
  have ev: "length pcm < 2 ^ 32 \<and> even (length pcm) \<longrightarrow>
          read_wav ?wav = Some \<lparr>numChannels = 1, sampleRate = 24000, bitsPerSample = 16,
                                sampleData = pcm\<rparr>"
    by (simp add: read_wav_header unat_of_nat)
  from w len dl rs un dr rd ev
    wav_header_fields [of "length pcm" pcm] wav_header_tags [of "length pcm" pcm]
    wav_header_fmt [of "length pcm" pcm]
  show ?thesis by blast
qed

theorem pcm_wav_round_trip_witness:
  "atob_example (js ''AAEC/w=='') = Some (map ucast [0, 1, 2, 255 :: 8 word])
   \<and> length [0, 1, 2, 255 :: 8 word] < 2 ^ 32
   \<and> even (length [0, 1, 2, 255 :: 8 word])
   \<and> (\<exists>wav. pcmToWavBlob atob_example (js ''AAEC/w=='') = Some wav
        \<and> length wav = 48
        \<and> getUint32 wav 16 = 16 \<and> getUint16 wav 20 = 1
        \<and> getUint16 wav 22 = 1 \<and> getUint32 wav 24 = 24000
        \<and> unat (getUint32 wav 40) = 4
        \<and> drop 44 wav = [0, 1, 2, 255]
        \<and> read_wav wav = Some \<lparr>numChannels = 1, sampleRate = 24000, bitsPerSample = 16,
                                  sampleData = [0, 1, 2, 255]\<rparr>)"
proof -
  have h1: "atob_example (js ''AAEC/w=='') = Some (map ucast [0, 1, 2, 255 :: 8 word])"
    by (simp add: atob_example_def)
  have h2: "length [0, 1, 2, 255 :: 8 word] < 2 ^ 32" by simp
  have h3: "even (length [0, 1, 2, 255 :: 8 word])" by simp
  from pcm_wav_round_trip [of atob_example "js ''AAEC/w==''" "[0, 1, 2, 255]"] h1 h2 h3
  show ?thesis by auto
qed

section \<open>Properties of the quiz card\<close>

lemma quiz_step_keeps_inv:
  "isSubmitted st \<longrightarrow> selectedIndex st \<noteq> None \<Longrightarrow>
   isSubmitted (quiz_step st e) \<longrightarrow> selectedIndex (quiz_step st e) \<noteq> None"
  by (cases e) (auto simp: handleSelect_def handleSubmit_def)

lemma quiz_run_keeps_inv:
  "isSubmitted st \<longrightarrow> selectedIndex st \<noteq> None \<Longrightarrow>
   isSubmitted (quiz_run evs st) \<longrightarrow> selectedIndex (quiz_run evs st) \<noteq> None"
  unfolding quiz_run_def
proof (induction evs arbitrary: st)
  case Nil
  then show ?case by simp
next
  case (Cons e evs)
  from Cons.prems have "isSubmitted (quiz_step st e) \<longrightarrow> selectedIndex (quiz_step st e) \<noteq> None"
    by (rule quiz_step_keeps_inv)
  then show ?case using Cons.IH by simp
qed

lemma quiz_step_frozen:
  "isSubmitted st \<Longrightarrow> selectedIndex st \<noteq> None \<Longrightarrow> quiz_step st e = st"
  by (cases e) (auto simp: handleSelect_def handleSubmit_def)

lemma quiz_run_frozen:
  "isSubmitted st \<Longrightarrow> selectedIndex st \<noteq> None \<Longrightarrow> quiz_run evs st = st"
  unfolding quiz_run_def
  by (induction evs) (simp_all add: quiz_step_frozen)

text \<open>
  Claim C10. For the state \<open>st\<close> reached from the initial state by any sequence of clicks:
  pressing "Check Answer" with nothing selected changes nothing (so an answer is submitted
  only when an option is selected); if \<open>st\<close> is submitted then its selection is not null,
  every further sequence of clicks leaves the state (hence the selected index) unchanged,
  and the verdict shown is "correct" exactly when the selected index equals
  \<^verbatim>\<open>correctIndex\<close>.
\<close>

theorem quiz_card_invariant:
  "(selectedIndex (quiz_run evs QuizCard_init) = None \<longrightarrow>
      \<not> isSubmitted (handleSubmit (quiz_run evs QuizCard_init)))
   \<and> (isSubmitted (quiz_run evs QuizCard_init) \<longrightarrow>
        selectedIndex (quiz_run evs QuizCard_init) \<noteq> None
      \<and> quiz_run later (quiz_run evs QuizCard_init) = quiz_run evs QuizCard_init
      \<and> quiz_verdict data (quiz_run evs QuizCard_init) \<noteq> None
      \<and> (quiz_verdict data (quiz_run evs QuizCard_init) = Some Correct
           \<longleftrightarrow> selectedIndex (quiz_run evs QuizCard_init) = Some (correctIndex data)))"
proof -
  let ?st = "quiz_run evs QuizCard_init"
  have inv: "isSubmitted ?st \<longrightarrow> selectedIndex ?st \<noteq> None"
    by (rule quiz_run_keeps_inv) (simp add: QuizCard_init_def)
  have a: "selectedIndex ?st = None \<longrightarrow> \<not> isSubmitted (handleSubmit ?st)"
    using inv by (auto simp: handleSubmit_def)
  have b: "isSubmitted ?st \<longrightarrow> quiz_run later ?st = ?st"
    using inv by (auto intro: quiz_run_frozen)
  have c: "isSubmitted ?st \<longrightarrow> quiz_verdict data ?st \<noteq> None
      \<and> (quiz_verdict data ?st = Some Correct
           \<longleftrightarrow> selectedIndex ?st = Some (correctIndex data))"
    by (simp add: quiz_verdict_def)
  from inv a b c show ?thesis by blast
qed

theorem quiz_card_invariant_witness:
  "isSubmitted (quiz_run [Select 2, Select 1, Submit] QuizCard_init)
   \<and> selectedIndex (quiz_run [Select 2, Select 1, Submit] QuizCard_init) = Some 1
   \<and> quiz_run [Select 0, Submit]
        (quiz_run [Select 2, Select 1, Submit] QuizCard_init)
       = quiz_run [Select 2, Select 1, Submit] QuizCard_init
   \<and> quiz_verdict quiz_example
        (quiz_run [Select 2, Select 1, Submit] QuizCard_init) = Some Correct
   \<and> selectedIndex (quiz_run [Submit] QuizCard_init) = None
   \<and> \<not> isSubmitted (handleSubmit (quiz_run [Submit] QuizCard_init))"
  using quiz_card_invariant [of "[Select 2, Select 1, Submit]" "[Select 0, Submit]"
      "quiz_example"]
    quiz_card_invariant [of "[Submit]" "[]"
      "quiz_example"]
  by (simp add: quiz_run_def QuizCard_init_def handleSelect_def handleSubmit_def
      quiz_verdict_def quiz_example_def)

section \<open>Properties of the navigation\<close>

lemma nav_step_in_bounds:
  assumes "0 < n" "0 \<le> slideIndex st" "slideIndex st < int n" "nav_step n st e = Some st'"
  shows "0 \<le> slideIndex st' \<and> slideIndex st' < int n"
  using assms by (cases e) (auto simp: nav_prev_def nav_next_def Let_def split: if_splits)

lemma nav_run_in_bounds:
  assumes "0 < n"
  shows "0 \<le> slideIndex st \<Longrightarrow> slideIndex st < int n \<Longrightarrow> nav_run n evs st = Some st'
    \<Longrightarrow> 0 \<le> slideIndex st' \<and> slideIndex st' < int n"
proof (induction evs arbitrary: st)
  case Nil
  then show ?case by simp
next
  case (Cons e evs)
  from Cons.prems(3) obtain st1 where s1: "nav_step n st e = Some st1"
    and r: "nav_run n evs st1 = Some st'"
    by (auto split: option.splits)
  from nav_step_in_bounds [OF assms Cons.prems(1,2) s1]
  have "0 \<le> slideIndex st1" "slideIndex st1 < int n" by simp_all
  then show ?case using Cons.IH r by blast
qed

text \<open>
  Claim C9. For a non-empty slide list \<open>ss\<close>, every state the player reaches from slide index 0
  by PREV and NEXT clicks has its index in \<open>0 .. slides.length - 1\<close>; in such a state PREV
  at index 0 leaves the index at 0, and NEXT at the last index restarts (the player is
  unmounted) instead of incrementing.
\<close>

theorem slide_index_in_bounds:
  assumes "ss \<noteq> []" and "nav_run (length ss) evs DeckNav_init = Some st"
  shows "0 \<le> slideIndex st \<and> slideIndex st \<le> int (length ss) - 1
    \<and> (slideIndex st = 0 \<longrightarrow> slideIndex (nav_prev st) = 0)
    \<and> (slideIndex st = int (length ss) - 1 \<longrightarrow> nav_step (length ss) st NEXT = None)
    \<and> (slideIndex st \<noteq> int (length ss) - 1 \<longrightarrow>
         (\<exists>st'. nav_step (length ss) st NEXT = Some st' \<and> slideIndex st' = slideIndex st + 1))"
proof -
  from assms(1) have n: "0 < length ss" by simp
  have "0 \<le> slideIndex st \<and> slideIndex st < int (length ss)"
    using assms(1)
    by (intro nav_run_in_bounds [OF n _ _ assms(2)]) (simp_all add: DeckNav_init_def)
  then show ?thesis by (auto simp: nav_prev_def nav_next_def Let_def)
qed

theorem slide_index_in_bounds_witness:
  "three_slides \<noteq> []
   \<and> nav_run (length three_slides) [PREV, NEXT, NEXT, PREV, NEXT] DeckNav_init
       = Some \<lparr>slideIndex = 2, direction = Forward\<rparr>
   \<and> nav_step (length three_slides) \<lparr>slideIndex = 2, direction = Forward\<rparr> NEXT = None
   \<and> nav_run (length three_slides) [PREV] DeckNav_init
       = Some \<lparr>slideIndex = 0, direction = Backward\<rparr>
   \<and> slideIndex (nav_prev \<lparr>slideIndex = 0, direction = Backward\<rparr>) = 0"
proof -
  have ne: "three_slides \<noteq> []" by (simp add: three_slides_def)
  have r1: "nav_run (length three_slides) [PREV, NEXT, NEXT, PREV, NEXT] DeckNav_init
       = Some \<lparr>slideIndex = 2, direction = Forward\<rparr>"
    by (simp add: three_slides_def DeckNav_init_def nav_prev_def nav_next_def Let_def)
  have r2: "nav_run (length three_slides) [PREV] DeckNav_init
       = Some \<lparr>slideIndex = 0, direction = Backward\<rparr>"
    by (simp add: three_slides_def DeckNav_init_def nav_prev_def nav_next_def Let_def)
  have n3: "length three_slides = 3" by (simp add: three_slides_def)
  from slide_index_in_bounds [OF ne r1] slide_index_in_bounds [OF ne r2] ne r1 r2
  show ?thesis by (simp add: n3)
qed

section \<open>Properties of the orchestrator\<close>

lemmas kinds = INTRO_def DEEP_DIVE_def VOCABULARY_def SCENARIO_def CONCLUSION_def

lemma indexed_eq: "indexed xs = map (\<lambda>i. (xs ! i, i)) [0..<length xs]"
  unfolding indexed_def
  by (rule nth_equalityI) simp_all

lemma foldl_put_asset:
  "distinct (map fst rs) \<Longrightarrow>
   foldl put_asset m rs k =
     (case map_of rs k of
        Some (Some v) \<Rightarrow> if v = [] then m k else Some v
      | _ \<Rightarrow> m k)"
proof (induction rs arbitrary: m)
  case Nil
  then show ?case by simp
next
  case (Cons r rs)
  obtain i v where r: "r = (i, v)" by (cases r)
  from Cons.prems have d: "distinct (map fst rs)" and ni: "i \<notin> fst ` set rs"
    by (simp_all add: r)
  have "foldl put_asset m (r # rs) k = foldl put_asset (put_asset m r) rs k" by simp
  also have "\<dots> = (case map_of rs k of
        Some (Some v) \<Rightarrow> if v = [] then put_asset m r k else Some v
      | _ \<Rightarrow> put_asset m r k)"
    by (rule Cons.IH [OF d])
  finally have step: "foldl put_asset m (r # rs) k = (case map_of rs k of
        Some (Some v) \<Rightarrow> if v = [] then put_asset m r k else Some v
      | _ \<Rightarrow> put_asset m r k)" .
  show ?case
  proof (cases "k = i")
    case True
    then have none: "map_of rs k = None" using ni by (simp add: map_of_eq_None_iff)
    have "put_asset m r k = (case v of Some x \<Rightarrow> if x = [] then m k else Some x | None \<Rightarrow> m k)"
      using True by (simp add: r put_asset_def split: option.splits)
    then show ?thesis using True step none
      by (simp add: r split: option.splits)
  next
    case False
    then have pk: "put_asset m r k = m k"
      by (simp add: r put_asset_def split: option.splits)
    have mo: "map_of (r # rs) k = map_of rs k"
      using False by (simp add: r)
    show ?thesis by (simp only: step mo pk)
  qed
qed

lemma collect_assets_lookup:
  "distinct (map fst rs) \<Longrightarrow>
   collect_assets rs k =
     (case map_of rs k of Some (Some v) \<Rightarrow> if v = [] then None else Some v | _ \<Rightarrow> None)"
  unfolding collect_assets_def
  by (simp add: foldl_put_asset split: option.splits)

lemma map_of_tabulate:
  "map_of (map (\<lambda>i. (i, h i)) ks) k = (if k \<in> set ks then Some (h k) else None)"
  by (induction ks) auto

lemma fst_snd_imagePromise: "fst (snd (imagePromise env sz (s, i))) = i"
  by (simp add: imagePromise_def split: option.splits)

lemma fst_snd_audioPromise: "fst (snd (audioPromise env acc (s, i))) = i"
  by (simp add: audioPromise_def)

text \<open>The tasks of a selection of positions.\<close>

lemma promises_of_filter:
  "map f (filter P (indexed xs))
     = map (\<lambda>i. f (xs ! i, i)) (filter (\<lambda>i. P (xs ! i, i)) [0..<length xs])"
  by (simp add: indexed_eq filter_map comp_def)

lemma promises_of_all:
  "map f (indexed xs) = map (\<lambda>i. f (xs ! i, i)) [0..<length xs]"
  by (simp add: indexed_eq comp_def)

lemma collect_tabulate:
  assumes "distinct ks"
  shows "collect_assets (map (\<lambda>i. (i, h i)) ks) k =
     (if k \<in> set ks then (case h k of Some v \<Rightarrow> if v = [] then None else Some v | None \<Rightarrow> None)
      else None)"
proof -
  have "map fst (map (\<lambda>i. (i, h i)) ks) = ks" by (simp add: comp_def)
  then have "distinct (map fst (map (\<lambda>i. (i, h i)) ks))" using assms by simp
  then show ?thesis
    by (simp add: collect_assets_lookup map_of_tabulate split: option.splits)
qed


lemma concat_map_if:
  "concat (map (\<lambda>i. if P i then [g i] else []) xs) = map g (filter P xs)"
  by (induction xs) simp_all

lemma generateContent_ok:
  assumes "deckText env t = Inr d"
  shows "generateContent env a t sz =
     \<lparr>app = a\<lparr>state := DECK, error := None,
              loadingStep := js ''Designing infographics and recording audio...'',
              generatedData := Some \<lparr>deck = d,
                images = collect_assets (map (\<lambda>i. snd (imagePromise env sz (slides d ! i, i)))
                           (filter (\<lambda>i. slide_type (slides d ! i) = DEEP_DIVE
                                      \<and> truthy (visualPrompt (slides d ! i)))
                              [0..<length (slides d)])),
                audio = collect_assets (map (\<lambda>i. snd (audioPromise env (voiceAccent a) (slides d ! i, i)))
                           [0..<length (slides d)])\<rparr>\<rparr>,
      keyDialogs = handleApiKeyCheck env,
      imageRequests = concat (map (\<lambda>i. fst (imagePromise env sz (slides d ! i, i)))
                           (filter (\<lambda>i. slide_type (slides d ! i) = DEEP_DIVE
                                      \<and> truthy (visualPrompt (slides d ! i)))
                              [0..<length (slides d)])),
      audioRequests = concat (map (\<lambda>i. fst (audioPromise env (voiceAccent a) (slides d ! i, i)))
                           [0..<length (slides d)]),
      rejected = False\<rparr>"
  unfolding generateContent_def Let_def
  by (simp add: assms promises_of_filter promises_of_all comp_def)

lemma image_results_tabulate:
  "map (\<lambda>i. snd (imagePromise env sz (xs ! i, i))) ks
     = map (\<lambda>i. (i, snd (snd (imagePromise env sz (xs ! i, i))))) ks"
  by (simp add: prod_eq_iff fst_snd_imagePromise)

lemma audio_results_tabulate:
  "map (\<lambda>i. snd (audioPromise env acc (xs ! i, i))) ks
     = map (\<lambda>i. (i, snd (snd (audioPromise env acc (xs ! i, i))))) ks"
  by (simp add: prod_eq_iff fst_snd_audioPromise)

lemma images_entry:
  assumes "deckText env t = Inr d"
  shows "images (the (generatedData (app (generateContent env a t sz)))) k =
     (if k < length (slides d) \<and> slide_type (slides d ! k) = DEEP_DIVE
      then (case visualPrompt (slides d ! k) of
              None \<Rightarrow> None
            | Some p \<Rightarrow>
                if p = [] then None
                else (case deckImage env k p sz of
                        Inr (Some u) \<Rightarrow> if u = [] then None else Some u
                      | _ \<Rightarrow> None))
      else None)"
  unfolding generateContent_ok [OF assms] image_results_tabulate
  by (simp add: collect_tabulate imagePromise_def truthy_def split: option.splits sum.splits)

lemma audio_entry:
  assumes "deckText env t = Inr d"
  shows "audio (the (generatedData (app (generateContent env a t sz)))) k =
     (if k < length (slides d) \<and> audioScript (slides d ! k) \<noteq> []
      then (case slideAudio env k (audioScript (slides d ! k)) (voiceAccent a) of
              Inr (Some u) \<Rightarrow> if u = [] then None else Some u
            | _ \<Rightarrow> None)
      else None)"
  unfolding generateContent_ok [OF assms] audio_results_tabulate
  by (simp add: collect_tabulate audioPromise_def split: option.splits sum.splits)

lemma image_requests_eq:
  assumes "deckText env t = Inr d"
  shows "imageRequests (generateContent env a t sz) =
     map (\<lambda>i. (i, the (visualPrompt (slides d ! i)), sz))
       (filter (\<lambda>i. slide_type (slides d ! i) = DEEP_DIVE \<and> truthy (visualPrompt (slides d ! i)))
          [0..<length (slides d)])"
proof -
  have "concat (map (\<lambda>i. fst (imagePromise env sz (slides d ! i, i))) ks)
      = map (\<lambda>i. (i, the (visualPrompt (slides d ! i)), sz)) ks"
    if "\<forall>i \<in> set ks. truthy (visualPrompt (slides d ! i))" for ks
    using that by (induction ks) (auto simp: imagePromise_def truthy_def split: option.splits)
  then show ?thesis unfolding generateContent_ok [OF assms] by simp
qed

lemma audio_requests_eq:
  assumes "deckText env t = Inr d"
  shows "audioRequests (generateContent env a t sz) =
     map (\<lambda>i. (i, audioScript (slides d ! i), voiceAccent a))
       (filter (\<lambda>i. audioScript (slides d ! i) \<noteq> []) [0..<length (slides d)])"
proof -
  have "(\<lambda>i. fst (audioPromise env (voiceAccent a) (slides d ! i, i)))
      = (\<lambda>i. if audioScript (slides d ! i) \<noteq> []
              then [(i, audioScript (slides d ! i), voiceAccent a)] else [])"
    by (rule ext) (simp add: audioPromise_def)
  then show ?thesis unfolding generateContent_ok [OF assms] by (simp add: concat_map_if)
qed


text \<open>
  Claim C1 (as amended). When the deck call succeeds the run completes in state DECK with
  a bundle holding the deck and two maps in which every position is decided by its own
  call alone: position \<open>k\<close> has an image entry exactly when slide \<open>k\<close> is a DeepDive slide
  with a non-empty visual prompt whose image call returned a non-empty string, and that
  string is the entry; it has an audio entry exactly when slide \<open>k\<close> has a non-empty script
  whose audio call returned a non-empty string. A call that throws, returns
  \<^verbatim>\<open>undefined\<close> or returns the empty string leaves its position out of the map and
  touches no other position.
\<close>

theorem asset_failure_isolation:
  assumes "deckText env t = Inr d"
  shows "state (app (generateContent env a t sz)) = DECK
    \<and> (\<exists>g. generatedData (app (generateContent env a t sz)) = Some g
         \<and> deck g = d
         \<and> (\<forall>k. images g k =
              (if k < length (slides d) \<and> slide_type (slides d ! k) = DEEP_DIVE
               then (case visualPrompt (slides d ! k) of
                       None \<Rightarrow> None
                     | Some p \<Rightarrow>
                         if p = [] then None
                         else (case deckImage env k p sz of
                                 Inr (Some u) \<Rightarrow> if u = [] then None else Some u
                               | _ \<Rightarrow> None))
               else None))
         \<and> (\<forall>k. audio g k =
              (if k < length (slides d) \<and> audioScript (slides d ! k) \<noteq> []
               then (case slideAudio env k (audioScript (slides d ! k)) (voiceAccent a) of
                       Inr (Some u) \<Rightarrow> if u = [] then None else Some u
                     | _ \<Rightarrow> None)
               else None)))"
proof -
  let ?r = "generateContent env a t sz"
  have st: "state (app ?r) = DECK" and g: "generatedData (app ?r) \<noteq> None"
    and dk: "deck (the (generatedData (app ?r))) = d"
    unfolding generateContent_ok [OF assms] by simp_all
  from g obtain g where gd: "generatedData (app ?r) = Some g" by blast
  show ?thesis
    using st gd dk images_entry [OF assms, of a sz] audio_entry [OF assms, of a sz]
    by simp
qed

theorem asset_failure_isolation_witness:
  "deckText env_example (js ''supply and demand'') = Inr deck_example
   \<and> state (app (generateContent env_example App_init (js ''supply and demand'') Size_1K)) = DECK
   \<and> (\<exists>g. generatedData (app (generateContent env_example App_init
                 (js ''supply and demand'') Size_1K)) = Some g
        \<and> images g 1 = None
        \<and> images g 5 = Some (js ''data:image/png;base64,AAAA'')
        \<and> audio g 0 = None \<and> audio g 3 = None
        \<and> audio g 1 = Some (js ''AAEC'') \<and> audio g 5 = Some (js ''AAEC''))"
proof -
  have h: "deckText env_example (js ''supply and demand'') = Inr deck_example"
    by (simp add: env_example_def)
  have n: "length (slides deck_example) = 6" by (simp add: deck_example_def)
  have s: "slides deck_example ! 0 = mk_slide INTRO (js ''a'') None"
    "slides deck_example ! Suc 0 = mk_slide DEEP_DIVE (js ''b'') (Some (js ''diagram of supply curve''))"
    "slides deck_example ! 3 = mk_slide VOCABULARY (js ''d'') (Some (js ''ignored''))"
    "slides deck_example ! 5 = mk_slide DEEP_DIVE (js ''f'') (Some (js ''curve''))"
    by (simp_all add: deck_example_def)
  have e: "deckImage env_example (Suc 0) p z = Inl (Thrown None)"
    "deckImage env_example 5 p z = Inr (Some (js ''data:image/png;base64,AAAA''))"
    "slideAudio env_example 0 p v = Inr None"
    "slideAudio env_example 3 p v = Inl (Thrown (Some (js ''quota'')))"
    "slideAudio env_example (Suc 0) p v = Inr (Some (js ''AAEC''))"
    "slideAudio env_example 5 p v = Inr (Some (js ''AAEC''))" for p z v
    by (simp_all add: env_example_def)
  from asset_failure_isolation [of env_example "js ''supply and demand''" deck_example
      App_init Size_1K, OF h]
  obtain g where g: "generatedData (app (generateContent env_example App_init
                 (js ''supply and demand'') Size_1K)) = Some g"
    and st: "state (app (generateContent env_example App_init (js ''supply and demand'') Size_1K)) = DECK"
    and im: "\<And>k. images g k =
              (if k < length (slides deck_example) \<and> slide_type (slides deck_example ! k) = DEEP_DIVE
               then (case visualPrompt (slides deck_example ! k) of
                       None \<Rightarrow> None
                     | Some p \<Rightarrow>
                         if p = [] then None
                         else (case deckImage env_example k p Size_1K of
                                 Inr (Some u) \<Rightarrow> if u = [] then None else Some u
                               | _ \<Rightarrow> None))
               else None)"
    and au: "\<And>k. audio g k =
              (if k < length (slides deck_example) \<and> audioScript (slides deck_example ! k) \<noteq> []
               then (case slideAudio env_example k (audioScript (slides deck_example ! k)) (voiceAccent App_init) of
                       Inr (Some u) \<Rightarrow> if u = [] then None else Some u
                     | _ \<Rightarrow> None)
               else None)"
    by blast
  have "images g 1 = None" "images g 5 = Some (js ''data:image/png;base64,AAAA'')"
    "audio g 0 = None" "audio g 3 = None"
    "audio g 1 = Some (js ''AAEC'')" "audio g 5 = Some (js ''AAEC'')"
    by (simp_all add: im au n s e mk_slide_def js_def)
  then show ?thesis using h g st by simp
qed

text \<open>
  Claim C1 as stated fails where a call succeeds with an empty payload: with the speech
  request of position 0 rejected and the one of position 1 answered by inline data
  \<^verbatim>\<open>""\<close>, the second call returns the empty string (it neither throws nor returns
  \<^verbatim>\<open>undefined\<close>), the run completes, and position 1 has no audio entry.
\<close>

theorem asset_failure_isolation_counterexample:
  "slideAudio env_empty_audio 0 (js ''a'') American = Inr None
   \<and> slideAudio env_empty_audio 1 (js ''b'') American = Inr (Some [])
   \<and> state (app (generateContent env_empty_audio App_init (js ''t'') Size_1K)) = DECK
   \<and> audio (the (generatedData (app (generateContent env_empty_audio App_init (js ''t'')
         Size_1K)))) 1 = None"
proof -
  have h: "deckText env_empty_audio (js ''t'') = Inr deck_two"
    by (simp add: env_empty_audio_def)
  have c0: "slideAudio env_empty_audio 0 p American = Inr None" for p
    by (simp add: env_empty_audio_def speech_ai_example_def generateSlideAudio_def
        backend_quota_def voice_def)
  have c1: "slideAudio env_empty_audio (Suc 0) p American = Inr (Some [])" for p
    by (simp add: env_empty_audio_def speech_ai_example_def generateSlideAudio_def
        backend_empty_payload_def voice_def first_inline_data_def)
  have st: "state (app (generateContent env_empty_audio App_init (js ''t'') Size_1K)) = DECK"
    unfolding generateContent_ok [OF h] by simp
  have "audio (the (generatedData (app (generateContent env_empty_audio App_init (js ''t'')
         Size_1K)))) 1 = None"
    unfolding audio_entry [OF h] by (simp add: c1 App_init_def)
  then show ?thesis using c0 c1 st by simp
qed

lemma startsWith_iff: "startsWith s sub \<longleftrightarrow> (\<exists>post. s = sub @ post)"
  by (induction s sub rule: startsWith.induct) auto

lemma str_includes_iff: "str_includes s sub \<longleftrightarrow> (\<exists>pre post. s = pre @ sub @ post)"
proof (induction s)
  case Nil
  then show ?case by auto
next
  case (Cons x xs)
  show ?case
  proof
    assume "str_includes (x # xs) sub"
    then consider "startsWith (x # xs) sub" | "str_includes xs sub" by auto
    then show "\<exists>pre post. x # xs = pre @ sub @ post"
    proof cases
      case 1
      then obtain post where "x # xs = sub @ post" by (auto simp: startsWith_iff)
      then have "x # xs = [] @ sub @ post" by simp
      then show ?thesis by blast
    next
      case 2
      then obtain pre post where "xs = pre @ sub @ post" using Cons.IH by blast
      then have "x # xs = (x # pre) @ sub @ post" by simp
      then show ?thesis by blast
    qed
  next
    assume "\<exists>pre post. x # xs = pre @ sub @ post"
    then obtain pre post where e: "x # xs = pre @ sub @ post" by blast
    show "str_includes (x # xs) sub"
    proof (cases pre)
      case Nil
      then have "startsWith (x # xs) sub" using e by (auto simp: startsWith_iff)
      then show ?thesis by simp
    next
      case (Cons y ys)
      then have "xs = ys @ sub @ post" using e by simp
      then have "str_includes xs sub" using Cons.IH by blast
      then show ?thesis by simp
    qed
  qed
qed

lemma generateContent_failed:
  assumes "deckText env t = Inl err"
  shows "generateContent env a t sz =
     (let a1 = a\<lparr>state := LOADING, error := None,
                   loadingStep := js ''Generating course structure (15 slides)...''\<rparr>;
          opened = (entityNotFound err = Some True \<and> aistudio env \<noteq> None);
          escaped = (entityNotFound err = None
                     \<or> (entityNotFound err = Some True
                         \<and> (\<exists>host e. aistudio env = Some host \<and> openSelectKey host = Inl e)))
      in \<lparr>app = (if escaped then a1
                  else a1\<lparr>error := Some (if entityNotFound err = Some True
                                          then msg_configuration else msg_generic),
                          state := ERROR\<rparr>),
          keyDialogs = handleApiKeyCheck env + (if opened then 1 else 0),
          imageRequests = [], audioRequests = [], rejected = escaped\<rparr>)"
  unfolding generateContent_def Let_def
  by (auto simp: assms split: option.splits bool.splits sum.splits)

lemma messages_differ: "msg_configuration \<noteq> msg_generic"
  by (simp add: msg_configuration_def msg_generic_def js_def)

lemma entityNotFound_True_iff:
  "entityNotFound err = Some True \<longleftrightarrow>
     (\<exists>pre post. err = Thrown (Some (pre @ js ''Requested entity was not found'' @ post)))
     \<or> err = OddMessage (Some True)"
  by (cases err) (auto simp: entityNotFound_def str_includes_iff split: option.splits)

lemma entityNotFound_False_iff:
  "entityNotFound err = Some False \<longleftrightarrow>
     err = Thrown None
     \<or> (\<exists>m. err = Thrown (Some m)
            \<and> \<not> (\<exists>pre post. m = pre @ js ''Requested entity was not found'' @ post))
     \<or> err = OddMessage (Some False)"
  by (cases err) (auto simp: entityNotFound_def str_includes_iff split: option.splits)

text \<open>
  Where the message test cannot be evaluated: a deck call that rejects with \<^verbatim>\<open>null\<close> or
  \<^verbatim>\<open>undefined\<close> (or with a value whose message has no \<^verbatim>\<open>includes\<close>) makes the
  \<^verbatim>\<open>catch\<close> block itself throw, and so does a rejected key-selection dialog; the
  component then stays in LOADING with no error text.
\<close>

lemma catch_block_throws:
  assumes "deckText env t = Inl err"
    and "entityNotFound err = None
         \<or> (entityNotFound err = Some True
             \<and> (\<exists>host e. aistudio env = Some host \<and> openSelectKey host = Inl e))"
  shows "state (app (generateContent env a t sz)) = LOADING
    \<and> error (app (generateContent env a t sz)) = None
    \<and> rejected (generateContent env a t sz)"
  unfolding generateContent_failed [OF assms(1)] Let_def using assms(2) by auto

lemma catch_block_throws_on_null:
  "state (app (generateContent (env_failing None Nullish) App_init (js ''t'') Size_1K)) = LOADING
   \<and> error (app (generateContent (env_failing None Nullish) App_init (js ''t'') Size_1K)) = None"
proof -
  have h: "deckText (env_failing None Nullish) (js ''t'') = Inl Nullish"
    by (simp add: env_failing_def)
  have n: "entityNotFound Nullish = None" by (simp add: entityNotFound_def)
  from catch_block_throws [OF h, of App_init Size_1K] n show ?thesis by simp
qed

text \<open>
  Claim C7 (as amended). Let the deck call fail with a thrown value on which the message
  test of the \<^verbatim>\<open>catch\<close> block can be evaluated.
  \<^item> The test holds exactly when the value's message is a string that contains
    "Requested entity was not found" (or a non-string message whose own
    \<^verbatim>\<open>includes\<close> answers so). Then, without \<^verbatim>\<open>window.aistudio\<close>, the run ends in
    state ERROR with the configuration message and no key-selection dialog is opened;
    with \<^verbatim>\<open>window.aistudio\<close> the dialog is opened once more, and when it resolves the
    run ends in state ERROR with the configuration message.
  \<^item> When the test fails, the run ends in state ERROR with the generic retry message and
    no further dialog.
  The two messages differ.
\<close>

theorem fatal_error_states:
  assumes "deckText env t = Inl err"
  shows "(entityNotFound err = Some True \<and> aistudio env = None \<longrightarrow>
            state (app (generateContent env a t sz)) = ERROR
          \<and> error (app (generateContent env a t sz)) = Some msg_configuration
          \<and> keyDialogs (generateContent env a t sz) = handleApiKeyCheck env)
    \<and> (\<forall>host. entityNotFound err = Some True \<and> aistudio env = Some host
            \<and> openSelectKey host = Inr () \<longrightarrow>
            state (app (generateContent env a t sz)) = ERROR
          \<and> error (app (generateContent env a t sz)) = Some msg_configuration
          \<and> keyDialogs (generateContent env a t sz) = handleApiKeyCheck env + 1)
    \<and> (entityNotFound err = Some False \<longrightarrow>
            state (app (generateContent env a t sz)) = ERROR
          \<and> error (app (generateContent env a t sz)) = Some msg_generic
          \<and> keyDialogs (generateContent env a t sz) = handleApiKeyCheck env)
    \<and> msg_configuration \<noteq> msg_generic
    \<and> (entityNotFound err = Some True \<longleftrightarrow>
         (\<exists>pre post. err = Thrown (Some (pre @ js ''Requested entity was not found'' @ post)))
         \<or> err = OddMessage (Some True))
    \<and> (entityNotFound err = Some False \<longleftrightarrow>
         err = Thrown None
         \<or> (\<exists>m. err = Thrown (Some m)
                \<and> \<not> (\<exists>pre post. m = pre @ js ''Requested entity was not found'' @ post))
         \<or> err = OddMessage (Some False))"
proof -
  have c1: "entityNotFound err = Some True \<and> aistudio env = None \<longrightarrow>
            state (app (generateContent env a t sz)) = ERROR
          \<and> error (app (generateContent env a t sz)) = Some msg_configuration
          \<and> keyDialogs (generateContent env a t sz) = handleApiKeyCheck env"
    unfolding generateContent_failed [OF assms] Let_def by simp
  have c2: "\<forall>host. entityNotFound err = Some True \<and> aistudio env = Some host
            \<and> openSelectKey host = Inr () \<longrightarrow>
            state (app (generateContent env a t sz)) = ERROR
          \<and> error (app (generateContent env a t sz)) = Some msg_configuration
          \<and> keyDialogs (generateContent env a t sz) = handleApiKeyCheck env + 1"
    unfolding generateContent_failed [OF assms] Let_def by simp
  have c3: "entityNotFound err = Some False \<longrightarrow>
            state (app (generateContent env a t sz)) = ERROR
          \<and> error (app (generateContent env a t sz)) = Some msg_generic
          \<and> keyDialogs (generateContent env a t sz) = handleApiKeyCheck env"
    unfolding generateContent_failed [OF assms] Let_def by simp
  from c1 c2 c3 messages_differ entityNotFound_True_iff [of err] entityNotFound_False_iff [of err]
  show ?thesis by blast
qed

lemma entityNotFound_examples:
  "entityNotFound err_entity = Some True" "entityNotFound err_network = Some False"
  by (simp_all add: entityNotFound_def err_entity_def err_network_def js_def)

theorem fatal_error_states_witness:
  "deckText (env_failing (Some host_example) err_entity) (js ''t'') = Inl err_entity
   \<and> deckText (env_failing (Some host_example) err_network) (js ''t'') = Inl err_network
   \<and> deckText (env_failing None err_entity) (js ''t'') = Inl err_entity
   \<and> entityNotFound err_entity = Some True
   \<and> entityNotFound err_network = Some False
   \<and> openSelectKey host_example = Inr ()
   \<and> state (app (generateContent (env_failing (Some host_example) err_entity) App_init
        (js ''t'') Size_1K)) = ERROR
   \<and> error (app (generateContent (env_failing (Some host_example) err_entity) App_init
        (js ''t'') Size_1K)) = Some msg_configuration
   \<and> keyDialogs (generateContent (env_failing (Some host_example) err_entity) App_init
        (js ''t'') Size_1K) = 1
   \<and> state (app (generateContent (env_failing None err_entity) App_init (js ''t'') Size_1K))
       = ERROR
   \<and> error (app (generateContent (env_failing None err_entity) App_init (js ''t'') Size_1K))
       = Some msg_configuration
   \<and> state (app (generateContent (env_failing (Some host_example) err_network) App_init
        (js ''t'') Size_1K)) = ERROR
   \<and> error (app (generateContent (env_failing (Some host_example) err_network) App_init
        (js ''t'') Size_1K)) = Some msg_generic
   \<and> keyDialogs (generateContent (env_failing (Some host_example) err_network) App_init
        (js ''t'') Size_1K) = 0"
proof -
  have h1: "deckText (env_failing (Some host_example) err_entity) (js ''t'') = Inl err_entity"
    and h2: "deckText (env_failing (Some host_example) err_network) (js ''t'') = Inl err_network"
    and h3: "deckText (env_failing None err_entity) (js ''t'') = Inl err_entity"
    by (simp_all add: env_failing_def)
  have k: "handleApiKeyCheck (env_failing (Some host_example) e) = 0"
    "aistudio (env_failing (Some host_example) e) = Some host_example"
    "aistudio (env_failing None e) = None" for e
    by (simp_all add: env_failing_def handleApiKeyCheck_def host_example_def)
  have o: "openSelectKey host_example = Inr ()" by (simp add: host_example_def)
  from fatal_error_states [OF h1, of App_init Size_1K]
    fatal_error_states [OF h2, of App_init Size_1K]
    fatal_error_states [OF h3, of App_init Size_1K] h1 h2 h3 o
  show ?thesis by (simp add: entityNotFound_examples k)
qed

text \<open>
  Claim C7 as stated fails without \<^verbatim>\<open>window.aistudio\<close>: the deck call fails with the
  message "Requested entity was not found", the configuration message is shown, and no
  key-selection dialog is opened.
\<close>

theorem fatal_error_states_counterexample:
  "deckText (env_failing None err_entity) (js ''t'') = Inl err_entity
   \<and> err_entity = Thrown (Some (js ''Requested entity was not found''))
   \<and> state (app (generateContent (env_failing None err_entity) App_init (js ''t'') Size_1K))
       = ERROR
   \<and> error (app (generateContent (env_failing None err_entity) App_init (js ''t'') Size_1K))
       = Some msg_configuration
   \<and> keyDialogs (generateContent (env_failing None err_entity) App_init (js ''t'') Size_1K) = 0"
proof -
  have h: "deckText (env_failing None err_entity) (js ''t'') = Inl err_entity"
    by (simp add: env_failing_def)
  have k: "handleApiKeyCheck (env_failing None err_entity) = 0"
    "aistudio (env_failing None err_entity) = None"
    by (simp_all add: env_failing_def handleApiKeyCheck_def)
  have m: "err_entity = Thrown (Some (js ''Requested entity was not found''))"
    by (simp add: err_entity_def)
  have r: "state (app (generateContent (env_failing None err_entity) App_init (js ''t'') Size_1K))
       = ERROR
   \<and> error (app (generateContent (env_failing None err_entity) App_init (js ''t'') Size_1K))
       = Some msg_configuration
   \<and> keyDialogs (generateContent (env_failing None err_entity) App_init (js ''t'') Size_1K) = 0"
    unfolding generateContent_failed [OF h] Let_def
    by (simp add: entityNotFound_examples k)
  from h m r show ?thesis by blast
qed

lemma generateDeckText_Inr:
  "generateDeckText ai JSON_parse c = Inr d \<longleftrightarrow>
     (\<exists>generate text. ai = Inr generate \<and> generate (deck_request c) = Inr (Some text)
        \<and> text \<noteq> [] \<and> JSON_parse text = Inr d)"
  by (auto simp: generateDeckText_def split: sum.splits option.splits)

lemma conforms_slide_kind:
  assumes "conforms slide_schema (slide_json s)"
  shows "slide_type s \<in> {INTRO, DEEP_DIVE, VOCABULARY, SCENARIO, CONCLUSION}"
proof -
  have t: "map_of (case slide_json s of JObject fs \<Rightarrow> fs | _ \<Rightarrow> []) ''type''
      = Some (JString (slide_type s))"
    by (simp add: slide_json_def)
  from assms have "\<forall>p \<in> set [(''type'', STRING (Some [INTRO, DEEP_DIVE, VOCABULARY, SCENARIO, CONCLUSION]))].
      case map_of (case slide_json s of JObject fs \<Rightarrow> fs | _ \<Rightarrow> []) (fst p) of
        None \<Rightarrow> True | Some v \<Rightarrow> conforms (snd p) v"
    by (simp add: slide_schema_def slide_json_def)
  then have "conforms (STRING (Some [INTRO, DEEP_DIVE, VOCABULARY, SCENARIO, CONCLUSION]))
      (JString (slide_type s))"
    using t by simp
  then show ?thesis by simp
qed

lemma conforms_deck_kinds:
  assumes "conforms deck_schema (deck_json d)"
  shows "\<forall>s \<in> set (slides d).
           slide_type s \<in> {INTRO, DEEP_DIVE, VOCABULARY, SCENARIO, CONCLUSION}"
proof -
  from assms have "\<forall>v \<in> set (map slide_json (slides d)). conforms slide_schema v"
    by (simp add: deck_schema_def deck_json_def)
  then show ?thesis using conforms_slide_kind by simp
qed

lemma conforms_plain_slide:
  "conforms slide_schema (slide_json (mk_slide ty script None))
     \<longleftrightarrow> ty \<in> {INTRO, DEEP_DIVE, VOCABULARY, SCENARIO, CONCLUSION}"
  by (simp add: slide_schema_def slide_json_def mk_slide_def optional_field_def)

lemma conforms_deck_iff:
  "conforms deck_schema (deck_json d) \<longleftrightarrow> (\<forall>s \<in> set (slides d). conforms slide_schema (slide_json s))"
  by (simp add: deck_schema_def deck_json_def)


lemma json_texts: "json_bogus_deck \<noteq> []" "json_kinds_deck \<noteq> []"
  "json_kinds_deck \<noteq> json_bogus_deck"
  by (simp_all add: json_bogus_deck_def json_kinds_deck_def js_def)

text \<open>
  Claim C3 (as amended). \<^verbatim>\<open>generateDeckText\<close> succeeds exactly when the service answers a
  non-empty text that the parser accepts, and it returns what the parser made of it,
  unchecked. Every slide's kind is one of the five values of \<^verbatim>\<open>SlideType\<close> when the
  answer conforms to the response schema that the request carries. The schema does not
  constrain the number of slides: for every \<open>n\<close> there is a conforming answer for which
  the call succeeds with \<open>n\<close> slides.
\<close>

theorem deck_text_success:
  "(generateDeckText ai JSON_parse c = Inr d \<longleftrightarrow>
      (\<exists>generate text. ai = Inr generate \<and> generate (deck_request c) = Inr (Some text)
         \<and> text \<noteq> [] \<and> JSON_parse text = Inr d))
   \<and> (generateDeckText ai JSON_parse c = Inr d
       \<and> conforms (req_responseSchema (deck_request c)) (deck_json d) \<longrightarrow>
         (\<forall>s \<in> set (slides d).
            slide_type s \<in> {INTRO, DEEP_DIVE, VOCABULARY, SCENARIO, CONCLUSION}))
   \<and> (\<exists>ai' parse' d'. generateDeckText ai' parse' c = Inr d'
         \<and> conforms (req_responseSchema (deck_request c)) (deck_json d')
         \<and> length (slides d') = n)"
proof -
  have sch: "req_responseSchema (deck_request c) = deck_schema"
    by (simp add: deck_request_def)
  let ?d = "\<lparr>topic = c, slides = replicate n (mk_slide INTRO (js ''a'') None)\<rparr>"
  have "generateDeckText (Inr (\<lambda>p. Inr (Some (js ''x'')))) (\<lambda>s. Inr ?d) c = Inr ?d"
    by (simp add: generateDeckText_def js_def)
  moreover have "conforms deck_schema (deck_json ?d)"
    by (simp add: conforms_deck_iff conforms_plain_slide)
  moreover have "length (slides ?d) = n" by simp
  ultimately have ex: "\<exists>ai' parse' d'. generateDeckText ai' parse' c = Inr d'
         \<and> conforms deck_schema (deck_json d') \<and> length (slides d') = n"
    by blast
  have k: "conforms deck_schema (deck_json d) \<longrightarrow>
         (\<forall>s \<in> set (slides d).
            slide_type s \<in> {INTRO, DEEP_DIVE, VOCABULARY, SCENARIO, CONCLUSION})"
    using conforms_deck_kinds by blast
  from ex k generateDeckText_Inr [of ai JSON_parse c d]
  show ?thesis unfolding sch by blast
qed

theorem deck_text_success_witness:
  "generateDeckText (Inr backend_kinds_deck) parse_example (js ''t'') = Inr deck_kinds
   \<and> conforms (req_responseSchema (deck_request (js ''t''))) (deck_json deck_kinds)
   \<and> length (slides deck_kinds) = 2
   \<and> slide_type (slides deck_kinds ! 0) \<in> {INTRO, DEEP_DIVE, VOCABULARY, SCENARIO, CONCLUSION}
   \<and> slide_type (slides deck_kinds ! 1) \<in> {INTRO, DEEP_DIVE, VOCABULARY, SCENARIO, CONCLUSION}
   \<and> (\<exists>generate text. Inr backend_kinds_deck = (Inr generate :: thrown + text_backend)
         \<and> generate (deck_request (js ''t'')) = Inr (Some text)
         \<and> text \<noteq> [] \<and> parse_example text = Inr deck_kinds)"
proof -
  have h: "generateDeckText (Inr backend_kinds_deck) parse_example (js ''t'') = Inr deck_kinds"
    by (simp add: generateDeckText_def backend_kinds_deck_def parse_example_def json_texts)
  have c: "conforms (req_responseSchema (deck_request (js ''t''))) (deck_json deck_kinds)"
    by (simp add: deck_request_def deck_schema_def slide_schema_def deck_json_def
        slide_json_def deck_kinds_def mk_slide_def optional_field_def)
  have n: "length (slides deck_kinds) = 2" by (simp add: deck_kinds_def)
  have m: "slides deck_kinds ! 0 \<in> set (slides deck_kinds)"
    "slides deck_kinds ! 1 \<in> set (slides deck_kinds)"
    by (simp_all add: deck_kinds_def)
  from deck_text_success [of "Inr backend_kinds_deck" parse_example "js ''t''" deck_kinds 0] h c
  have k: "\<forall>s \<in> set (slides deck_kinds).
         slide_type s \<in> {INTRO, DEEP_DIVE, VOCABULARY, SCENARIO, CONCLUSION}"
    and e: "\<exists>generate text. Inr backend_kinds_deck = (Inr generate :: thrown + text_backend)
         \<and> generate (deck_request (js ''t'')) = Inr (Some text)
         \<and> text \<noteq> [] \<and> parse_example text = Inr deck_kinds"
    by blast+
  from k m have "slide_type (slides deck_kinds ! 0)
        \<in> {INTRO, DEEP_DIVE, VOCABULARY, SCENARIO, CONCLUSION}"
    "slide_type (slides deck_kinds ! 1)
        \<in> {INTRO, DEEP_DIVE, VOCABULARY, SCENARIO, CONCLUSION}"
    by blast+
  with h c n e show ?thesis by blast
qed

text \<open>
  Claim C3 as stated fails on the count and on the kinds: the service answers a deck of
  one slide whose type is the string "BOGUS", the call returns it without throwing, the
  deck has one slide and not 15, and the slide's kind is none of the five values.
\<close>

theorem deck_text_success_counterexample:
  "generateDeckText (Inr backend_bogus_deck) parse_example (js ''supply and demand'')
     = Inr deck_bogus
   \<and> length (slides deck_bogus) = 1
   \<and> slide_type (slides deck_bogus ! 0) = js ''BOGUS''
   \<and> slide_type (slides deck_bogus ! 0)
       \<notin> {INTRO, DEEP_DIVE, VOCABULARY, SCENARIO, CONCLUSION}"
  by (simp add: generateDeckText_def backend_bogus_deck_def parse_example_def json_texts
      deck_bogus_def mk_slide_def kinds js_def)


lemma generateDeckText_isl:
  "isl (generateDeckText ai JSON_parse c) \<longleftrightarrow>
     (case ai of
        Inl e \<Rightarrow> True
      | Inr generate \<Rightarrow>
          isl (generate (deck_request c))
          \<or> spec_no_content (generate (deck_request c))
          \<or> spec_malformed_json JSON_parse (generate (deck_request c)))"
  by (auto simp: generateDeckText_def spec_no_content_def spec_malformed_json_def
      split: sum.splits option.splits)

text \<open>
  Claim C6 (as amended). \<^verbatim>\<open>generateDeckText\<close> fails exactly when the client cannot be
  constructed, the request is rejected, the service returns no content, or the content is
  malformed JSON. Whatever is thrown reaches the orchestrator, which aborts the run: the
  component never reaches state DECK (it ends in ERROR, or stays in LOADING when the
  \<^verbatim>\<open>catch\<close> block itself throws), \<^verbatim>\<open>generatedData\<close> is left as it was and no
  image and no audio request is issued. When the \<^verbatim>\<open>catch\<close> block runs to its end the
  state is ERROR and the error text is one of the two messages.
\<close>

theorem deck_text_failure_aborts:
  "(isl (generateDeckText ai JSON_parse c) \<longleftrightarrow>
     (case ai of
        Inl e \<Rightarrow> True
      | Inr generate \<Rightarrow>
          isl (generate (deck_request c))
          \<or> spec_no_content (generate (deck_request c))
          \<or> spec_malformed_json JSON_parse (generate (deck_request c))))
   \<and> (\<forall>e. generateDeckText ai JSON_parse c = Inl e \<longrightarrow>
        state (app (generateContent (service studio ai JSON_parse image_ai speech_ai) a c sz))
          \<in> {LOADING, ERROR}
        \<and> (\<not> rejected (generateContent (service studio ai JSON_parse image_ai speech_ai) a c sz)
            \<longrightarrow> state (app (generateContent (service studio ai JSON_parse image_ai speech_ai)
                    a c sz)) = ERROR
              \<and> error (app (generateContent (service studio ai JSON_parse image_ai speech_ai)
                    a c sz))
                  = Some (if entityNotFound e = Some True then msg_configuration
                          else msg_generic))
        \<and> generatedData (app (generateContent (service studio ai JSON_parse image_ai speech_ai)
            a c sz)) = generatedData a
        \<and> imageRequests (generateContent (service studio ai JSON_parse image_ai speech_ai) a c sz)
          = []
        \<and> audioRequests (generateContent (service studio ai JSON_parse image_ai speech_ai) a c sz)
          = [])"
proof -
  let ?r = "generateContent (service studio ai JSON_parse image_ai speech_ai) a c sz"
  have "state (app ?r) \<in> {LOADING, ERROR}
        \<and> (\<not> rejected ?r \<longrightarrow> state (app ?r) = ERROR
              \<and> error (app ?r) = Some (if entityNotFound e = Some True then msg_configuration
                                        else msg_generic))
        \<and> generatedData (app ?r) = generatedData a
        \<and> imageRequests ?r = []
        \<and> audioRequests ?r = []"
    if f: "generateDeckText ai JSON_parse c = Inl e" for e
  proof -
    have h: "deckText (service studio ai JSON_parse image_ai speech_ai) c = Inl e"
      using f by (simp add: service_def)
    show ?thesis
      unfolding generateContent_failed [OF h] Let_def by simp
  qed
  then show ?thesis using generateDeckText_isl [of ai JSON_parse c] by blast
qed

theorem deck_text_failure_aborts_witness:
  "generateDeckText (Inr backend_no_text) parse_example (js ''t'')
     = Inl (Thrown (Some (js ''No content generated'')))
   \<and> isl (generateDeckText (Inr backend_no_text) parse_example (js ''t''))
   \<and> \<not> rejected (generateContent
        (service None (Inr backend_no_text) parse_example image_ai_none
           speech_ai_example) App_init (js ''t'') Size_1K)
   \<and> state (app (generateContent
        (service None (Inr backend_no_text) parse_example image_ai_none
           speech_ai_example) App_init (js ''t'') Size_1K)) = ERROR
   \<and> error (app (generateContent
        (service None (Inr backend_no_text) parse_example image_ai_none
           speech_ai_example) App_init (js ''t'') Size_1K)) = Some msg_generic
   \<and> generatedData (app (generateContent
        (service None (Inr backend_no_text) parse_example image_ai_none
           speech_ai_example) App_init (js ''t'') Size_1K)) = None
   \<and> audioRequests (generateContent
        (service None (Inr backend_no_text) parse_example image_ai_none
           speech_ai_example) App_init (js ''t'') Size_1K) = []"
proof -
  have h: "generateDeckText (Inr backend_no_text) parse_example (js ''t'')
     = Inl (Thrown (Some (js ''No content generated'')))"
    by (simp add: generateDeckText_def backend_no_text_def)
  have d: "deckText (service None (Inr backend_no_text) parse_example image_ai_none
           speech_ai_example) (js ''t'') = Inl (Thrown (Some (js ''No content generated'')))"
    using h by (simp add: service_def)
  have e: "entityNotFound (Thrown (Some (js ''No content generated''))) = Some False"
    by (simp add: entityNotFound_def js_def)
  have r: "\<not> rejected (generateContent
        (service None (Inr backend_no_text) parse_example image_ai_none
           speech_ai_example) App_init (js ''t'') Size_1K)"
    unfolding generateContent_failed [OF d] Let_def by (simp add: e)
  from deck_text_failure_aborts [of "Inr backend_no_text" parse_example "js ''t''" None
      image_ai_none speech_ai_example App_init Size_1K] h r
  show ?thesis by (simp add: App_init_def e)
qed

text \<open>
  Claim C6 as stated fails where the request itself is rejected: the call fails although
  the service returned neither an empty answer nor malformed JSON.
\<close>

theorem deck_text_failure_aborts_counterexample:
  "generateDeckText (Inr backend_rejecting) parse_example (js ''t'') = Inl err_entity
   \<and> \<not> spec_no_content (backend_rejecting (deck_request (js ''t'')))
   \<and> \<not> spec_malformed_json parse_example (backend_rejecting (deck_request (js ''t'')))"
  by (simp add: generateDeckText_def backend_rejecting_def spec_no_content_def
      spec_malformed_json_def)

lemma map_fst_tabulate: "map fst (map (\<lambda>i. (i, h i)) ks) = ks"
  by (simp add: comp_def)

text \<open>
  Claim C4. For the deck \<open>d\<close> returned by the text call, the image requests are issued,
  once each and in slide order, for exactly the positions whose slide is a DeepDive slide
  with a non-empty \<^verbatim>\<open>visualPrompt\<close>; every request carries that slide's prompt and the
  requested size.
\<close>

theorem image_requests_exact:
  assumes "deckText env t = Inr d"
  shows "map fst (imageRequests (generateContent env a t sz))
           = filter (\<lambda>i. slide_type (slides d ! i) = DEEP_DIVE
                        \<and> (\<exists>p. visualPrompt (slides d ! i) = Some p \<and> p \<noteq> []))
               [0..<length (slides d)]
    \<and> fst ` set (imageRequests (generateContent env a t sz))
           = {i. i < length (slides d) \<and> slide_type (slides d ! i) = DEEP_DIVE
                 \<and> (\<exists>p. visualPrompt (slides d ! i) = Some p \<and> p \<noteq> [])}
    \<and> (\<forall>(i, p, s) \<in> set (imageRequests (generateContent env a t sz)).
          visualPrompt (slides d ! i) = Some p \<and> s = sz)"
proof -
  have tr: "truthy v \<longleftrightarrow> (\<exists>p. v = Some p \<and> p \<noteq> [])" for v
    by (cases v) (simp_all add: truthy_def)
  have m: "map fst (imageRequests (generateContent env a t sz))
           = filter (\<lambda>i. slide_type (slides d ! i) = DEEP_DIVE
                        \<and> (\<exists>p. visualPrompt (slides d ! i) = Some p \<and> p \<noteq> []))
               [0..<length (slides d)]"
    unfolding image_requests_eq [OF assms] map_fst_tabulate by (simp only: tr)
  have "fst ` set (imageRequests (generateContent env a t sz))
      = set (map fst (imageRequests (generateContent env a t sz)))" by simp
  also have "\<dots> = {i. i < length (slides d) \<and> slide_type (slides d ! i) = DEEP_DIVE
                 \<and> (\<exists>p. visualPrompt (slides d ! i) = Some p \<and> p \<noteq> [])}"
    unfolding m by auto
  finally have s: "fst ` set (imageRequests (generateContent env a t sz))
           = {i. i < length (slides d) \<and> slide_type (slides d ! i) = DEEP_DIVE
                 \<and> (\<exists>p. visualPrompt (slides d ! i) = Some p \<and> p \<noteq> [])}" .
  have p: "\<forall>(i, p, s) \<in> set (imageRequests (generateContent env a t sz)).
          visualPrompt (slides d ! i) = Some p \<and> s = sz"
    unfolding image_requests_eq [OF assms] by (auto simp: tr)
  from m s p show ?thesis by blast
qed

theorem image_requests_exact_witness:
  "deckText env_example (js ''supply and demand'') = Inr deck_example
   \<and> map fst (imageRequests (generateContent env_example App_init (js ''supply and demand'')
        Size_2K)) = [1, 5]
   \<and> imageRequests (generateContent env_example App_init (js ''supply and demand'') Size_2K)
        = [(1, js ''diagram of supply curve'', Size_2K), (5, js ''curve'', Size_2K)]"
proof -
  have h: "deckText env_example (js ''supply and demand'') = Inr deck_example"
    by (simp add: env_example_def)
  have f: "filter (\<lambda>i. slide_type (slides deck_example ! i) = DEEP_DIVE
                        \<and> (\<exists>p. visualPrompt (slides deck_example ! i) = Some p \<and> p \<noteq> []))
               [0..<length (slides deck_example)] = [1, 5]"
    by (simp add: deck_example_def mk_slide_def js_def upt_rec kinds)
  have r: "imageRequests (generateContent env_example App_init (js ''supply and demand'') Size_2K)
        = [(1, js ''diagram of supply curve'', Size_2K), (5, js ''curve'', Size_2K)]"
    by (simp add: generateContent_def Let_def env_example_def deck_example_def indexed_def
        mk_slide_def imagePromise_def truthy_def js_def upt_rec kinds)
  from image_requests_exact [OF h, of App_init Size_2K] h f r show ?thesis by simp
qed

text \<open>
  Claim C8. For the deck \<open>d\<close> returned by the text call, the audio requests are issued,
  once each and in slide order, for exactly the positions whose \<^verbatim>\<open>audioScript\<close> is not
  empty, whatever the slide's kind; every request carries that script and the component's
  accent. A position with an empty script has no request and no audio entry in the bundle.
\<close>

theorem audio_requests_exact:
  assumes "deckText env t = Inr d"
  shows "map fst (audioRequests (generateContent env a t sz))
           = filter (\<lambda>i. audioScript (slides d ! i) \<noteq> []) [0..<length (slides d)]
    \<and> fst ` set (audioRequests (generateContent env a t sz))
           = {i. i < length (slides d) \<and> audioScript (slides d ! i) \<noteq> []}
    \<and> (\<forall>(i, p, v) \<in> set (audioRequests (generateContent env a t sz)).
          p = audioScript (slides d ! i) \<and> v = voiceAccent a)
    \<and> (\<forall>i. audioScript (slides d ! i) = [] \<longrightarrow>
          i \<notin> fst ` set (audioRequests (generateContent env a t sz))
          \<and> (\<exists>g. generatedData (app (generateContent env a t sz)) = Some g \<and> audio g i = None))"
proof -
  let ?r = "generateContent env a t sz"
  have m: "map fst (audioRequests ?r)
           = filter (\<lambda>i. audioScript (slides d ! i) \<noteq> []) [0..<length (slides d)]"
    unfolding audio_requests_eq [OF assms] by (rule map_fst_tabulate)
  have "fst ` set (audioRequests ?r) = set (map fst (audioRequests ?r))" by simp
  also have "\<dots> = {i. i < length (slides d) \<and> audioScript (slides d ! i) \<noteq> []}"
    unfolding m by auto
  finally have s: "fst ` set (audioRequests ?r)
           = {i. i < length (slides d) \<and> audioScript (slides d ! i) \<noteq> []}" .
  have p: "\<forall>(i, p, v) \<in> set (audioRequests ?r).
          p = audioScript (slides d ! i) \<and> v = voiceAccent a"
    unfolding audio_requests_eq [OF assms] by auto
  have g: "generatedData (app ?r) \<noteq> None"
    unfolding generateContent_ok [OF assms] by simp
  then obtain g where gd: "generatedData (app ?r) = Some g" by blast
  have e: "audio g i = None" if "audioScript (slides d ! i) = []" for i
    using audio_entry [OF assms, of a sz i] gd that by simp
  from m s p gd e show ?thesis by auto
qed

theorem audio_requests_exact_witness:
  "deckText env_example (js ''supply and demand'') = Inr deck_example
   \<and> audioScript (slides deck_example ! 2) = []
   \<and> map fst (audioRequests (generateContent env_example App_init (js ''supply and demand'')
        Size_1K)) = [0, 1, 3, 4, 5]
   \<and> (\<exists>g. generatedData (app (generateContent env_example App_init (js ''supply and demand'')
        Size_1K)) = Some g \<and> audio g 2 = None)"
proof -
  have h: "deckText env_example (js ''supply and demand'') = Inr deck_example"
    by (simp add: env_example_def)
  have e: "audioScript (slides deck_example ! 2) = []"
    by (simp add: deck_example_def mk_slide_def)
  have f: "filter (\<lambda>i. audioScript (slides deck_example ! i) \<noteq> [])
               [0..<length (slides deck_example)] = [0, 1, 3, 4, 5]"
    by (simp add: deck_example_def mk_slide_def js_def upt_rec)
  from audio_requests_exact [OF h, of App_init Size_1K] h e f show ?thesis by simp
qed

end
